theory Spec2Isabelle
  imports Main "HOL-Library.Word" "HOL-Library.AList"
begin

unbundle bit_operations_syntax

section \<open>Vulkan handles, results and the abort of a failed call\<close>

text \<open>
  Vulkan object handles (\<open>VkPipeline\<close>, \<open>VkSemaphore\<close>, ...) are opaque integers;
  \<open>VK_NULL_HANDLE\<close> is 0. A value-initialised \<open>T()\<close> of C++ is the \<open>default\<close> of the
  type.
\<close>

type_synonym handle = nat

definition VK_NULL_HANDLE :: handle where
  "VK_NULL_HANDLE = 0"

instantiation nat :: default
begin

definition default_nat :: nat where
  "default_nat = VK_NULL_HANDLE"

instance ..

end

datatype VkResult = VK_SUCCESS | VK_ERROR int

text \<open>
  \<open>VK_CHECK_RESULT(f)\<close> terminates the process when \<open>f\<close> does not return
  \<open>VK_SUCCESS\<close>; a terminated run is the value \<open>Inl (Abort res)\<close>. An access outside
  an array has no defined behaviour in C++; a run that gets there is \<open>Inl OutOfBounds\<close>.
\<close>

datatype error = Abort VkResult | OutOfBounds

section \<open>The driver\<close>

text \<open>
  The Vulkan driver is outside the program. What it answers to the fallible calls is an
  input: \<open>driver_results\<close> lists the results of the coming calls in order, and every call
  after the list has run out succeeds. The device records what the program made of it: the
  objects created, with their kind and handle, and the batches submitted to the queue.
\<close>

datatype object_kind =
  KImage | KDeviceMemory | KImageView | KSampler | KRenderPass | KFramebuffer
  | KSemaphore | KCommandBuffer | KBuffer | KDescriptorPool | KDescriptorSetLayout
  | KPipelineLayout | KDescriptorSet

text \<open>Where a semaphore or a command buffer of the renderer lives (the target of a pointer).\<close>

datatype semaphore_ref =
  PresentComplete | RenderComplete | ShadowmapSemaphore nat | DeferredSemaphore

datatype command_buffer_ref =
  ShadowmapCommandBuffer nat | DeferredCmdBuffer | DrawCmdBuffer nat

record VkSubmitInfo =
  waitSemaphoreCount :: "32 word"
  pWaitSemaphores :: semaphore_ref
  signalSemaphoreCount :: "32 word"
  pSignalSemaphores :: semaphore_ref
  commandBufferCount :: "32 word"
  pCommandBuffers :: command_buffer_ref

record VkDevice =
  driver_results :: "VkResult list"
  created_objects :: "(object_kind \<times> handle) list"
  submitted :: "VkSubmitInfo list"

text \<open>The result the driver gives to the next fallible call.\<close>

definition next_result :: "VkDevice \<Rightarrow> VkResult \<times> VkDevice" where
  "next_result d =
     (case driver_results d of
        [] \<Rightarrow> (VK_SUCCESS, d)
      | res # rest \<Rightarrow> (res, d\<lparr>driver_results := rest\<rparr>))"

text \<open>\<open>VK_CHECK_RESULT\<close> around a call that yields a result and a value.\<close>

definition VK_CHECK_RESULT :: "VkResult \<times> 'a \<Rightarrow> error + 'a" where
  "VK_CHECK_RESULT outcome =
     (if fst outcome = VK_SUCCESS then Inr (snd outcome) else Inl (Abort (fst outcome)))"

text \<open>Sequencing: a terminated run stays terminated.\<close>

definition and_then :: "error + 'a \<Rightarrow> ('a \<Rightarrow> error + 'b) \<Rightarrow> error + 'b" where
  "and_then run_a f = (case run_a of Inl e \<Rightarrow> Inl e | Inr a \<Rightarrow> f a)"

text \<open>
  A creation call (\<open>vkCreateRenderPass\<close>, \<open>vkCreateImage\<close>, \<open>vkAllocateMemory\<close>, ...): on
  success the driver hands out a handle that is new and not null.
\<close>

definition vkCreate :: "object_kind \<Rightarrow> VkDevice \<Rightarrow> VkResult \<times> handle \<times> VkDevice" where
  "vkCreate kind d =
     (case next_result d of
        (res, d') \<Rightarrow>
          if res = VK_SUCCESS
          then (res, Suc (length (created_objects d')), d'\<lparr>created_objects := created_objects d' @ [(kind, Suc (length (created_objects d')))]\<rparr>)
          else (res, VK_NULL_HANDLE, d'))"

text \<open>\<open>vkQueueSubmit(queue, 1, &submitInfo, VK_NULL_HANDLE)\<close>.\<close>

definition vkQueueSubmit :: "VkDevice \<Rightarrow> VkSubmitInfo \<Rightarrow> VkResult \<times> VkDevice" where
  "vkQueueSubmit d info =
     (case next_result d of
        (res, d') \<Rightarrow>
          if res = VK_SUCCESS
          then (res, d'\<lparr>submitted := submitted d' @ [info]\<rparr>)
          else (res, d'))"

section \<open>The resource registry (\<open>VulkanResourceList\<close>)\<close>

text \<open>
  \<open>std::unordered_map<std::string, T> resources\<close>: an association list with unique keys.
  The iteration order of an unordered map is unspecified; the list fixes one, and nothing
  below depends on it.
\<close>

type_synonym 'h VulkanResourceList = "(string \<times> 'h) list"

text \<open>\<open>resources[name]\<close> read: \<open>operator[]\<close> inserts \<open>T()\<close> when the key is absent.\<close>

definition subscript :: "'h::default VulkanResourceList \<Rightarrow> string \<Rightarrow> 'h \<times> 'h VulkanResourceList" where
  "subscript r name =
     (case map_of r name of
        Some h \<Rightarrow> (h, r)
      | None \<Rightarrow> (default, r @ [(name, default)]))"

text \<open>\<open>resources[name] = h\<close>.\<close>

definition assign :: "'h VulkanResourceList \<Rightarrow> string \<Rightarrow> 'h \<Rightarrow> 'h VulkanResourceList" where
  "assign r name h = AList.update name h r"

definition get :: "'h::default VulkanResourceList \<Rightarrow> string \<Rightarrow> 'h \<times> 'h VulkanResourceList" where
  "get r name = subscript r name"

text \<open>\<open>getPtr\<close> returns the address of the stored element; the model returns what it points to.\<close>

definition getPtr :: "'h::default VulkanResourceList \<Rightarrow> string \<Rightarrow> 'h \<times> 'h VulkanResourceList" where
  "getPtr r name = subscript r name"

definition present :: "'h VulkanResourceList \<Rightarrow> string \<Rightarrow> bool" where
  "present r name = (map_of r name \<noteq> None)"

text \<open>
  \<open>PipelineLayoutList::add\<close>, \<open>DescriptorSetLayoutList::add\<close>, \<open>DescriptorSetList::add\<close> and
  \<open>PipelineList::addGraphicsPipeline\<close>: the creation call is checked, the handle is stored
  under the name and returned. The outcome of the creation call is the argument \<open>created\<close>.
\<close>

definition add :: "'h VulkanResourceList \<Rightarrow> string \<Rightarrow> VkResult \<times> 'h \<Rightarrow> error + ('h \<times> 'h VulkanResourceList)" where
  "add r name created =
     (if fst created = VK_SUCCESS
      then Inr (snd created, assign r name (snd created))
      else Inl (Abort (fst created)))"


text \<open>
  A history of completed calls on one registry. \<open>Add name h\<close> is an \<open>add\<close> whose creation
  call succeeded with handle \<open>h\<close> (after a failed one the process is gone).
\<close>

datatype 'h reg_call = Add string 'h | Get string | GetPtr string | Present string

fun call :: "'h::default VulkanResourceList \<Rightarrow> 'h reg_call \<Rightarrow> 'h VulkanResourceList" where
  "call r (Add name h) = (case add r name (VK_SUCCESS, h) of Inr res \<Rightarrow> snd res | Inl e \<Rightarrow> r)"
| "call r (Get name) = snd (get r name)"
| "call r (GetPtr name) = snd (getPtr r name)"
| "call r (Present name) = r"

fun run :: "'h::default VulkanResourceList \<Rightarrow> 'h reg_call list \<Rightarrow> 'h VulkanResourceList" where
  "run r [] = r"
| "run r (c # cs) = run (call r c) cs"

text \<open>The names a history touches through \<open>add\<close>, \<open>get\<close> or \<open>getPtr\<close>.\<close>

fun touched :: "'h reg_call \<Rightarrow> string set" where
  "touched (Add name h) = {name}"
| "touched (Get name) = {name}"
| "touched (GetPtr name) = {name}"
| "touched (Present name) = {}"

text \<open>The handle of the most recent \<open>add\<close> under a name, if there was one.\<close>

fun last_added :: "'h reg_call list \<Rightarrow> string \<Rightarrow> 'h option \<Rightarrow> 'h option" where
  "last_added [] name acc = acc"
| "last_added (Add n h # cs) name acc = last_added cs name (if n = name then Some h else acc)"
| "last_added (c # cs) name acc = last_added cs name acc"

text \<open>What a lookup yields for a stored or a missing entry.\<close>

definition handle_of :: "'h::default option \<Rightarrow> 'h" where
  "handle_of entry = (case entry of Some h \<Rightarrow> h | None \<Rightarrow> default)"

section \<open>The memory type helper (\<open>getMemTypeIndex\<close>)\<close>

text \<open>
  \<open>deviceMemProps\<close> is a \<open>VkPhysicalDeviceMemoryProperties\<close>. Its \<open>memoryTypes\<close> is an
  array of \<open>VK_MAX_MEMORY_TYPES = 32\<close> entries, given here as a function of the index;
  the loop never reads an index of 32 or more.
\<close>

record VkMemoryType =
  propertyFlags :: "32 word"
  heapIndex :: "32 word"

record VkPhysicalDeviceMemoryProperties =
  memoryTypeCount :: "32 word"
  memoryTypes :: "nat \<Rightarrow> VkMemoryType"

text \<open>
  The loop of \<open>getMemTypeIndex\<close> from counter \<open>i\<close> on; \<open>typeBits >>= 1\<close> is \<open>drop_bit 1\<close>.
  When the loop runs out, the function returns 0 (the source notes
  \<open>todo: throw if no appropriate mem type was found\<close>).
\<close>

function getMemTypeIndex_from ::
  "VkPhysicalDeviceMemoryProperties \<Rightarrow> nat \<Rightarrow> 32 word \<Rightarrow> 32 word \<Rightarrow> nat" where
  "getMemTypeIndex_from deviceMemProps i typeBits properties =
     (if i < 32 then
        (if typeBits AND 1 = 1 then
           (if propertyFlags (memoryTypes deviceMemProps i) AND properties = properties
            then i
            else getMemTypeIndex_from deviceMemProps (i + 1) (drop_bit 1 typeBits) properties)
         else getMemTypeIndex_from deviceMemProps (i + 1) (drop_bit 1 typeBits) properties)
      else 0)"
  by pat_completeness auto
termination
  by (relation "measure (\<lambda>(deviceMemProps, i, typeBits, properties). 32 - i)") auto

definition getMemTypeIndex ::
  "VkPhysicalDeviceMemoryProperties \<Rightarrow> 32 word \<Rightarrow> 32 word \<Rightarrow> nat" where
  "getMemTypeIndex deviceMemProps typeBits properties =
     getMemTypeIndex_from deviceMemProps 0 typeBits properties"

text \<open>A memory type that the resource allows and that has every requested property.\<close>

definition suitable ::
  "VkPhysicalDeviceMemoryProperties \<Rightarrow> 32 word \<Rightarrow> 32 word \<Rightarrow> nat \<Rightarrow> bool" where
  "suitable deviceMemProps typeBits properties i =
     (bit typeBits i \<and> propertyFlags (memoryTypes deviceMemProps i) AND properties = properties)"

text \<open>
  A device for the examples: type 0 is device local (flag 1), type 1 is host visible and
  host coherent (flags 2 and 4), the other entries are unused.
\<close>

definition example_memory :: VkPhysicalDeviceMemoryProperties where
  "example_memory =
     \<lparr>memoryTypeCount = 2,
      memoryTypes = (\<lambda>i. \<lparr>propertyFlags = (if i = 0 then 1 else if i = 1 then 6 else 0),
                           heapIndex = 0\<rparr>)\<rparr>"

section \<open>Frame submission (\<open>VulkanExample::draw\<close>)\<close>

definition NUM_LIGHTS :: nat where
  "NUM_LIGHTS = 3"

text \<open>
  The part of the renderer that \<open>draw\<close> touches. \<open>submitInfo\<close> is a member set up by the
  base class, which also sets its semaphore counts; \<open>draw\<close> changes the fields written
  below and no others. \<open>prepareFrame\<close> before and \<open>submitFrame\<close> after the submissions
  belong to the base class and submit nothing through this code.
\<close>

record DrawState =
  submitInfo :: VkSubmitInfo
  currentBuffer :: nat
  queue :: VkDevice

definition submit :: "DrawState \<Rightarrow> error + DrawState" where
  "submit s =
     and_then (VK_CHECK_RESULT (vkQueueSubmit (queue s) (submitInfo s)))
       (\<lambda>d. Inr (s\<lparr>queue := d\<rparr>))"

text \<open>The loop over the lights, for the values of \<open>i\<close> still to come.\<close>

fun draw_shadowmaps :: "nat list \<Rightarrow> DrawState \<Rightarrow> error + DrawState" where
  "draw_shadowmaps [] s = Inr s"
| "draw_shadowmaps (i # rest) s =
     and_then
       (submit (s\<lparr>submitInfo := (submitInfo s)
          \<lparr>pWaitSemaphores := (if i = 0 then PresentComplete else ShadowmapSemaphore (i - 1)),
           pSignalSemaphores := ShadowmapSemaphore i,
           commandBufferCount := 1,
           pCommandBuffers := ShadowmapCommandBuffer i\<rparr>\<rparr>))
       (draw_shadowmaps rest)"

definition draw :: "DrawState \<Rightarrow> error + DrawState" where
  "draw s =
     and_then (draw_shadowmaps [0..<NUM_LIGHTS] s) (\<lambda>s.
     and_then
       (submit (s\<lparr>submitInfo := (submitInfo s)
          \<lparr>pSignalSemaphores := DeferredSemaphore,
           pWaitSemaphores := ShadowmapSemaphore (NUM_LIGHTS - 1),
           pCommandBuffers := DeferredCmdBuffer\<rparr>\<rparr>)) (\<lambda>s.
       submit (s\<lparr>submitInfo := (submitInfo s)
          \<lparr>pWaitSemaphores := DeferredSemaphore,
           pSignalSemaphores := RenderComplete,
           pCommandBuffers := DrawCmdBuffer (currentBuffer s)\<rparr>\<rparr>)))"

text \<open>The submissions a call of \<open>draw\<close> added to the queue.\<close>

definition submissions_of :: "DrawState \<Rightarrow> DrawState \<Rightarrow> VkSubmitInfo list" where
  "submissions_of s s' = drop (length (submitted (queue s))) (submitted (queue s'))"

text \<open>What one submission waits on, signals and runs, with the two semaphore counts.\<close>

definition link ::
  "VkSubmitInfo \<Rightarrow> 32 word \<times> semaphore_ref \<times> 32 word \<times> semaphore_ref \<times> command_buffer_ref" where
  "link info =
     (waitSemaphoreCount info, pWaitSemaphores info,
      signalSemaphoreCount info, pSignalSemaphores info, pCommandBuffers info)"

text \<open>A renderer at the start of a frame, for the examples: the driver refuses nothing.\<close>

definition example_frame :: DrawState where
  "example_frame =
     \<lparr>submitInfo = \<lparr>waitSemaphoreCount = 1, pWaitSemaphores = PresentComplete,
                    signalSemaphoreCount = 1, pSignalSemaphores = RenderComplete,
                    commandBufferCount = 0, pCommandBuffers = DrawCmdBuffer 0\<rparr>,
      currentBuffer = 1,
      queue = \<lparr>driver_results = [], created_objects = [], submitted = []\<rparr>\<rparr>"

section \<open>Preparing the shadow passes\<close>

definition SHADOWMAP_DIM :: int where
  "SHADOWMAP_DIM = 2048"

record FrameBufferAttachment =
  image :: handle
  mem :: handle
  view :: handle

record ShadowmapPass =
  width :: int
  height :: int
  frameBuffer :: handle
  depth :: FrameBufferAttachment
  renderPass :: handle
  depthSampler :: handle
  commandBuffer :: handle
  semaphore :: handle

text \<open>
  \<open>shadowmapPass\<close> is the array \<open>ShadowmapPass shadowmapPass[NUM_LIGHTS]\<close>, a list of
  \<open>NUM_LIGHTS\<close> entries; the loops below index it with \<open>i < NUM_LIGHTS\<close> only.
\<close>

record ShadowState =
  shadowmapPass :: "ShadowmapPass list"
  device :: VkDevice

text \<open>\<open>shadowmapPass[i].field = ...\<close>.\<close>

definition update_pass :: "nat \<Rightarrow> (ShadowmapPass \<Rightarrow> ShadowmapPass) \<Rightarrow> ShadowState \<Rightarrow> ShadowState" where
  "update_pass i f s = s\<lparr>shadowmapPass := (shadowmapPass s)[i := f (shadowmapPass s ! i)]\<rparr>"

text \<open>A fallible call that creates no object (\<open>vkBindImageMemory\<close>).\<close>

definition vkCall :: "VkDevice \<Rightarrow> VkResult \<times> VkDevice" where
  "vkCall d = next_result d"

text \<open>
  The loop at the end of \<open>prepareShadowmapRenderpass\<close>: one \<open>vkCreateRenderPass\<close> from the
  one \<open>renderPassCreateInfo\<close> for each light, stored in \<open>shadowmapPass[i].renderPass\<close>.
\<close>

fun prepareShadowmapRenderpass_loop :: "nat list \<Rightarrow> ShadowState \<Rightarrow> error + ShadowState" where
  "prepareShadowmapRenderpass_loop [] s = Inr s"
| "prepareShadowmapRenderpass_loop (i # rest) s =
     and_then (VK_CHECK_RESULT (vkCreate KRenderPass (device s))) (\<lambda>(pass, d).
       prepareShadowmapRenderpass_loop rest
         (update_pass i (\<lambda>p. p\<lparr>renderPass := pass\<rparr>) (s\<lparr>device := d\<rparr>)))"

definition prepareShadowmapRenderpass :: "ShadowState \<Rightarrow> error + ShadowState" where
  "prepareShadowmapRenderpass s = prepareShadowmapRenderpass_loop [0..<NUM_LIGHTS] s"

text \<open>
  The loop of \<open>prepareShadowmapFramebuffer\<close>. For each light: the depth image, its memory,
  the binding, the view, the sampler, then a call of \<open>prepareShadowmapRenderpass\<close>, then the
  framebuffer on \<open>shadowmapPass[i].renderPass\<close>.
\<close>

fun prepareShadowmapFramebuffer_loop :: "nat list \<Rightarrow> ShadowState \<Rightarrow> error + ShadowState" where
  "prepareShadowmapFramebuffer_loop [] s = Inr s"
| "prepareShadowmapFramebuffer_loop (i # rest) s =
     and_then (VK_CHECK_RESULT (vkCreate KImage
         (device (update_pass i (\<lambda>p. p\<lparr>width := SHADOWMAP_DIM, height := SHADOWMAP_DIM\<rparr>) s))))
       (\<lambda>(img, d).
     and_then (VK_CHECK_RESULT (vkCreate KDeviceMemory d)) (\<lambda>(memory, d).
     and_then (VK_CHECK_RESULT (vkCall d)) (\<lambda>d.
     and_then (VK_CHECK_RESULT (vkCreate KImageView d)) (\<lambda>(v, d).
     and_then (VK_CHECK_RESULT (vkCreate KSampler d)) (\<lambda>(sampler, d).
     and_then (prepareShadowmapRenderpass
         (update_pass i
            (\<lambda>p. p\<lparr>width := SHADOWMAP_DIM, height := SHADOWMAP_DIM,
                    depth := \<lparr>image = img, mem = memory, view = v\<rparr>,
                    depthSampler := sampler\<rparr>)
            (s\<lparr>device := d\<rparr>)))
       (\<lambda>s.
     and_then (VK_CHECK_RESULT (vkCreate KFramebuffer (device s))) (\<lambda>(fb, d).
       prepareShadowmapFramebuffer_loop rest
         (update_pass i (\<lambda>p. p\<lparr>frameBuffer := fb\<rparr>) (s\<lparr>device := d\<rparr>)))))))))"

definition prepareShadowmapFramebuffer :: "ShadowState \<Rightarrow> error + ShadowState" where
  "prepareShadowmapFramebuffer s = prepareShadowmapFramebuffer_loop [0..<NUM_LIGHTS] s"

text \<open>The number of render passes created on a device so far.\<close>

definition render_passes_created :: "VkDevice \<Rightarrow> nat" where
  "render_passes_created d = length (filter (\<lambda>entry. fst entry = KRenderPass) (created_objects d))"

text \<open>The renderer before \<open>prepare\<close>: nothing created, and a driver that refuses nothing.\<close>

definition fresh_pass :: ShadowmapPass where
  "fresh_pass =
     \<lparr>width = 0, height = 0, frameBuffer = VK_NULL_HANDLE,
      depth = \<lparr>image = VK_NULL_HANDLE, mem = VK_NULL_HANDLE, view = VK_NULL_HANDLE\<rparr>,
      renderPass = VK_NULL_HANDLE, depthSampler = VK_NULL_HANDLE,
      commandBuffer = VK_NULL_HANDLE, semaphore = VK_NULL_HANDLE\<rparr>"

definition fresh_shadow_state :: ShadowState where
  "fresh_shadow_state =
     \<lparr>shadowmapPass = replicate NUM_LIGHTS fresh_pass,
      device = \<lparr>driver_results = [], created_objects = [], submitted = []\<rparr>\<rparr>"

section \<open>The scene: imported model, materials and meshes\<close>

subsection \<open>What the importer hands over\<close>

text \<open>
  The model importer is outside the program. Its result is an argument of \<open>load\<close>: the
  imported scene, or the error string of a failed import. Vertex components are \<open>float\<close>
  values that the program only copies and negates; their type is left open, with a
  negation, a zero and a one. The parallel arrays \<open>mVertices\<close>, \<open>mNormals\<close>,
  \<open>mTextureCoords[0]\<close> and \<open>mTangents\<close> of a mesh, of \<open>mNumVertices\<close> entries each, are one
  list of rows. A face is the three indices the program reads from it (the source:
  \<open>Assume mesh is triangulated\<close>). \<open>mNumVertices\<close> and \<open>mNumFaces\<close> are \<open>unsigned int\<close>,
  the lengths of the lists.
\<close>

type_synonym 'f vec3 = "'f \<times> 'f \<times> 'f"
type_synonym 'f vec2 = "'f \<times> 'f"
type_synonym aiFace = "32 word \<times> 32 word \<times> 32 word"

record 'f aiVertexRow =
  mVertex :: "'f vec3"
  mNormal :: "'f vec3"
  mTextureCoord :: "'f vec3"
  mTangent :: "'f vec3"

record 'f aiMesh =
  mName :: string
  mMaterialIndex :: nat
  mRows :: "'f aiVertexRow list"
  HasTextureCoords0 :: bool
  HasTangentsAndBitangents :: bool
  mFaces :: "aiFace list"

text \<open>
  A material of the importer: its name and, for each texture type the program asks for,
  the file names of the textures of that type (\<open>GetTextureCount\<close> is the length,
  \<open>GetTexture(type, 0, ...)\<close> the first).
\<close>

record aiMaterial =
  AI_MATKEY_NAME :: string
  aiTextureType_DIFFUSE :: "string list"
  aiTextureType_HEIGHT :: "string list"
  aiTextureType_AMBIENT :: "string list"
  aiTextureType_SPECULAR :: "string list"
  aiTextureType_OPACITY :: "string list"

record 'f aiScene =
  mMaterials :: "aiMaterial list"
  mMeshes :: "'f aiMesh list"

subsection \<open>The scene of the renderer\<close>

record 'f Vertex =
  pos :: "'f vec3"
  uv :: "'f vec2"
  color :: "'f vec3"
  normal :: "'f vec3"
  tangent :: "'f vec3"

text \<open>A texture (\<open>vkTools::VulkanTexture\<close>) is known by the handle of its image.\<close>

type_synonym VulkanTexture = handle

record SceneMaterial =
  name :: string
  diffuse :: VulkanTexture
  roughness :: VulkanTexture
  metallic :: VulkanTexture
  bump :: VulkanTexture
  hasAlpha :: bool
  hasBump :: bool
  hasRoughness :: bool
  hasMetaliness :: bool
  pipeline :: handle

text \<open>
  \<open>material\<close> is the pointer \<open>&materials[aMesh->mMaterialIndex]\<close>, kept as the index.
\<close>

record SceneMesh =
  vertexBuffer :: handle
  vertexMemory :: handle
  indexBuffer :: handle
  indexMemory :: handle
  indexCount :: "32 word"
  indexBase :: "32 word"
  descriptorSet :: handle
  material :: nat

record Buffer =
  buffer :: handle
  memory :: handle

text \<open>
  The scene. \<open>globalVertices\<close> and \<open>globalIndices\<close> are what \<open>loadMeshes\<close> copied into the two
  global buffers: the final values of its locals \<open>gVertices\<close> and \<open>gIndices\<close>.
\<close>

record 'f Scene =
  assetPath :: string
  aScene :: "'f aiScene option"
  materials :: "SceneMaterial list"
  meshes :: "SceneMesh list"
  globalVertexBuffer :: Buffer
  globalIndexBuffer :: Buffer
  globalVertices :: "'f Vertex list"
  globalIndices :: "32 word list"
  descriptorPool :: handle
  descriptorSetLayout :: handle
  pipelineLayout :: handle

text \<open>
  What a scene load works on: the scene, the two global registries it uses, the device,
  the files handed to the texture loader so far, and the lines printed by \<open>load\<close> (the
  progress lines of \<open>loadMaterials\<close> and \<open>loadMeshes\<close> are left out).
\<close>

record 'f SceneWorld =
  scene :: "'f Scene"
  textures :: "VulkanTexture VulkanResourceList"
  pipelines :: "handle VulkanResourceList"
  gpu :: VkDevice
  loaded_files :: "string list"
  printed :: "string list"

subsection \<open>Textures\<close>

text \<open>
  Modelled from the spec: the texture loader (\<open>vkTools::VulkanTextureLoader\<close>) is not part
  of the source at hand. Given a file path it returns a texture of its own, and a failure
  is fatal to the load.
\<close>

definition loadTexture :: "string \<Rightarrow> 'f SceneWorld \<Rightarrow> error + (VulkanTexture \<times> 'f SceneWorld)" where
  "loadTexture filename w =
     and_then (VK_CHECK_RESULT (vkCreate KImage (gpu w))) (\<lambda>(texture, d).
       Inr (texture, w\<lparr>gpu := d, loaded_files := loaded_files w @ [filename]\<rparr>))"

text \<open>\<open>TextureList::addTexture2D(name, filename, format)\<close> on \<open>resources.textures\<close>.\<close>

definition addTexture2D :: "string \<Rightarrow> string \<Rightarrow> 'f SceneWorld \<Rightarrow> error + (VulkanTexture \<times> 'f SceneWorld)" where
  "addTexture2D key filename w =
     and_then (loadTexture filename w) (\<lambda>(texture, w).
       Inr (texture, w\<lparr>textures := assign (textures w) key texture\<rparr>))"

text \<open>\<open>resources.textures->get(name)\<close>.\<close>

definition get_texture :: "string \<Rightarrow> 'f SceneWorld \<Rightarrow> VulkanTexture \<times> 'f SceneWorld" where
  "get_texture key w = (fst (get (textures w) key), w\<lparr>textures := snd (get (textures w) key)\<rparr>)"

text \<open>\<open>std::replace(fileName.begin(), fileName.end(), '\\', '/')\<close>.\<close>

definition replace_backslashes :: "string \<Rightarrow> string" where
  "replace_backslashes fileName = map (\<lambda>c. if c = CHR 0x5C then CHR ''/'' else c) fileName"

text \<open>
  The pattern used for each texture channel:
  \<open>if (!present(fileName)) addTexture2D(fileName, assetPath + fileName, ...) else get(fileName)\<close>.
\<close>

definition resolve_texture :: "string \<Rightarrow> 'f SceneWorld \<Rightarrow> error + (VulkanTexture \<times> 'f SceneWorld)" where
  "resolve_texture fileName w =
     (if \<not> present (textures w) fileName
      then addTexture2D fileName (assetPath (scene w) @ fileName) w
      else Inr (get_texture fileName w))"

subsection \<open>\<open>Scene::loadMaterials\<close>\<close>

text \<open>The body of the loop for one imported material: the material it builds.\<close>

definition loadMaterial :: "aiMaterial \<Rightarrow> 'f SceneWorld \<Rightarrow> error + (SceneMaterial \<times> 'f SceneWorld)" where
  "loadMaterial m w =
     and_then
       (case aiTextureType_DIFFUSE m of
          texturefile # others \<Rightarrow> resolve_texture (replace_backslashes texturefile) w
        | [] \<Rightarrow> Inr (get_texture ''dummy.diffuse'' w)) (\<lambda>(diffuse_map, w).
     case get_texture ''dummy.specular'' w of (dummy_roughness, w) \<Rightarrow>
     case get_texture ''dialectric.metallic'' w of (dummy_metallic, w) \<Rightarrow>
     and_then
       (case aiTextureType_HEIGHT m of
          texturefile # others \<Rightarrow> resolve_texture (replace_backslashes texturefile) w
        | [] \<Rightarrow> Inr (get_texture ''dummy.bump'' w)) (\<lambda>(bump_map, w).
     and_then
       (case aiTextureType_AMBIENT m of
          texturefile # others \<Rightarrow> resolve_texture (replace_backslashes texturefile) w
        | [] \<Rightarrow> Inr (dummy_roughness, w)) (\<lambda>(roughness_map, w).
     and_then
       (case aiTextureType_SPECULAR m of
          texturefile # others \<Rightarrow> resolve_texture (replace_backslashes texturefile) w
        | [] \<Rightarrow> Inr (dummy_metallic, w)) (\<lambda>(metallic_map, w).
     case get (pipelines w) ''scene.solid'' of (solid, registry) \<Rightarrow>
       Inr (\<lparr>name = AI_MATKEY_NAME m,
             diffuse = diffuse_map,
             roughness = roughness_map,
             metallic = metallic_map,
             bump = bump_map,
             hasAlpha = (aiTextureType_OPACITY m \<noteq> []),
             hasBump = (aiTextureType_HEIGHT m \<noteq> []),
             hasRoughness = (aiTextureType_AMBIENT m \<noteq> []),
             hasMetaliness = (aiTextureType_SPECULAR m \<noteq> []),
             pipeline = solid\<rparr>,
            w\<lparr>pipelines := registry\<rparr>)))))"

text \<open>
  \<open>materials.resize(aScene->mNumMaterials)\<close> and the loop that sets every \<open>materials[i]\<close>
  anew: the list is rebuilt, one entry per imported material, in order.
\<close>

fun loadMaterials_loop ::
  "aiMaterial list \<Rightarrow> SceneMaterial list \<Rightarrow> 'f SceneWorld \<Rightarrow> error + (SceneMaterial list \<times> 'f SceneWorld)" where
  "loadMaterials_loop [] so_far w = Inr (so_far, w)"
| "loadMaterials_loop (m # rest) so_far w =
     and_then (loadMaterial m w) (\<lambda>(mat, w). loadMaterials_loop rest (so_far @ [mat]) w)"

definition add_dummy_textures :: "'f SceneWorld \<Rightarrow> error + 'f SceneWorld" where
  "add_dummy_textures w =
     and_then (addTexture2D ''dummy.diffuse'' (assetPath (scene w) @ ''sponza/dummy.dds'') w)
       (\<lambda>(t, w).
     and_then (addTexture2D ''dummy.specular'' (assetPath (scene w) @ ''sponza/dummy_specular.dds'') w)
       (\<lambda>(t, w).
     and_then (addTexture2D ''dummy.bump'' (assetPath (scene w) @ ''sponza/dummy_ddn.dds'') w)
       (\<lambda>(t, w).
     and_then (addTexture2D ''dialectric.metallic''
         (assetPath (scene w) @ ''SponzaPBR/textures_pbr/Dielectric_metallic_TGA_BC2_1.DDS'') w)
       (\<lambda>(t, w). Inr w))))"

definition loadMaterials :: "'f aiScene \<Rightarrow> 'f SceneWorld \<Rightarrow> error + 'f SceneWorld" where
  "loadMaterials imported w =
     and_then (add_dummy_textures w) (\<lambda>w.
     and_then (loadMaterials_loop (mMaterials imported) [] w) (\<lambda>(mats, w).
       Inr (w\<lparr>scene := (scene w)\<lparr>materials := mats\<rparr>\<rparr>)))"


text \<open>
  How the texture registry and the loader's record develop from one world to a later one:
  every entry that was there is kept as it was, and the files loaded in between are
  those of keys that were absent before and are present after, each one once.
\<close>

definition tex_step :: "'f SceneWorld \<Rightarrow> 'f SceneWorld \<Rightarrow> bool" where
  "tex_step w w' \<longleftrightarrow>
     assetPath (scene w') = assetPath (scene w)
     \<and> (\<forall>k. present (textures w) k \<longrightarrow> map_of (textures w') k = map_of (textures w) k)
     \<and> (\<exists>new. loaded_files w' = loaded_files w @ map (\<lambda>k. assetPath (scene w) @ k) new
            \<and> distinct new
            \<and> (\<forall>k \<in> set new. \<not> present (textures w) k \<and> present (textures w') k))"

subsection \<open>\<open>Scene::loadMeshes\<close>\<close>

text \<open>\<open>pos.y = -pos.y\<close> and \<open>normal.y = -normal.y\<close>.\<close>

definition flip_y :: "'f::uminus vec3 \<Rightarrow> 'f vec3" where
  "flip_y v = (fst v, - fst (snd v), snd (snd v))"

definition make_vertex :: "bool \<Rightarrow> bool \<Rightarrow> 'f::{uminus,zero,one} aiVertexRow \<Rightarrow> 'f Vertex" where
  "make_vertex hasUV hasTangent row =
     \<lparr>pos = flip_y (mVertex row),
      uv = (if hasUV then (fst (mTextureCoord row), fst (snd (mTextureCoord row))) else (0, 0)),
      color = (1, 1, 1),
      normal = flip_y (mNormal row),
      tangent = (if hasTangent then mTangent row else (0, 1, 0))\<rparr>"

text \<open>
  The locals of \<open>loadMeshes\<close> that live across the loop, the meshes built so far and the
  device.
\<close>

record 'f MeshLoad =
  gVertices :: "'f Vertex list"
  gIndices :: "32 word list"
  gIndexBase :: "32 word"
  built :: "SceneMesh list"
  load_gpu :: VkDevice

text \<open>
  The loop over the faces of one mesh, from face number \<open>i\<close> on. The three indices of a
  face are stored in the local vector \<open>indices\<close> at \<open>i * 3\<close>, \<open>i * 3 + 1\<close> and \<open>i * 3 + 2\<close>,
  and go to \<open>gIndices\<close> with \<open>vertexBase\<close> added; \<open>gIndexBase\<close> grows by 3; all of it in
  \<open>uint32_t\<close>. \<open>indices\<close> was resized to \<open>mNumFaces * 3\<close>, computed in \<open>uint32_t\<close> as well: a
  store beyond its size has no defined behaviour, and the model stops there.
\<close>

fun append_faces ::
  "32 word \<Rightarrow> nat \<Rightarrow> aiFace list \<Rightarrow> 32 word \<Rightarrow> 32 word list \<times> 32 word
     \<Rightarrow> error + (32 word list \<times> 32 word)" where
  "append_faces vertexBase indices_size [] i (global, base) = Inr (global, base)"
| "append_faces vertexBase indices_size ((i0, i1, i2) # faces) i (global, base) =
     (if unat (i * 3) < indices_size \<and> unat (i * 3 + 1) < indices_size
         \<and> unat (i * 3 + 2) < indices_size
      then append_faces vertexBase indices_size faces (i + 1)
             (global @ [i0 + vertexBase, i1 + vertexBase, i2 + vertexBase], base + 3)
      else Inl OutOfBounds)"

text \<open>The indices of the faces of a mesh, each with an offset added.\<close>

definition shifted :: "32 word \<Rightarrow> aiFace list \<Rightarrow> 32 word list" where
  "shifted offset faces =
     concat (map (\<lambda>face. [fst face + offset, fst (snd face) + offset, snd (snd face) + offset]) faces)"

text \<open>
  The number of faces, and of vertices, of the first \<open>k\<close> meshes of a model, and of all
  of them.
\<close>

definition faces_before :: "'f aiMesh list \<Rightarrow> nat \<Rightarrow> nat" where
  "faces_before model k = sum_list (map (\<lambda>m. length (mFaces m)) (take k model))"

definition vertices_before :: "'f aiMesh list \<Rightarrow> nat \<Rightarrow> nat" where
  "vertices_before model k = sum_list (map (\<lambda>m. length (mRows m)) (take k model))"

definition total_faces :: "'f aiMesh list \<Rightarrow> nat" where
  "total_faces model = sum_list (map (\<lambda>m. length (mFaces m)) model)"

definition total_vertices :: "'f aiMesh list \<Rightarrow> nat" where
  "total_vertices model = sum_list (map (\<lambda>m. length (mRows m)) model)"

text \<open>
  What the loop over the meshes computes, written out: the index base of each mesh when
  the running base is \<open>base\<close>, and the global indices when \<open>count\<close> vertices are there.
\<close>

fun index_bases :: "32 word \<Rightarrow> 'f aiMesh list \<Rightarrow> 32 word list" where
  "index_bases base [] = []"
| "index_bases base (m # rest) = base # index_bases (base + of_nat (3 * length (mFaces m))) rest"

fun global_indices_from :: "nat \<Rightarrow> 'f aiMesh list \<Rightarrow> 32 word list" where
  "global_indices_from count [] = []"
| "global_indices_from count (m # rest) =
     shifted (of_nat count) (mFaces m) @ global_indices_from (count + length (mRows m)) rest"


text \<open>
  A buffer with its memory: \<open>vkCreateBuffer\<close>, \<open>vkAllocateMemory\<close>, for a staging buffer
  \<open>vkMapMemory\<close>, and \<open>vkBindBufferMemory\<close>, each checked. (The memory type from
  \<open>getMemTypeIndex\<close> goes to the driver and nowhere else.)
\<close>

definition create_buffer :: "bool \<Rightarrow> VkDevice \<Rightarrow> error + (Buffer \<times> VkDevice)" where
  "create_buffer staging d =
     and_then (VK_CHECK_RESULT (vkCreate KBuffer d)) (\<lambda>(b, d).
     and_then (VK_CHECK_RESULT (vkCreate KDeviceMemory d)) (\<lambda>(m, d).
     and_then (if staging then VK_CHECK_RESULT (vkCall d) else Inr d) (\<lambda>d.
     and_then (VK_CHECK_RESULT (vkCall d)) (\<lambda>d.
       Inr (\<lparr>buffer = b, memory = m\<rparr>, d)))))"

text \<open>
  Staging and target buffers for vertices and for indices, then the copy:
  \<open>vkBeginCommandBuffer\<close>, \<open>vkEndCommandBuffer\<close>, \<open>vkQueueSubmit\<close> of the copy command and
  \<open>vkQueueWaitIdle\<close>, each checked. The result is the two target buffers.
\<close>

definition upload :: "VkDevice \<Rightarrow> error + (Buffer \<times> Buffer \<times> VkDevice)" where
  "upload d =
     and_then (create_buffer True d) (\<lambda>(staging_vertices, d).
     and_then (create_buffer False d) (\<lambda>(target_vertices, d).
     and_then (create_buffer True d) (\<lambda>(staging_indices, d).
     and_then (create_buffer False d) (\<lambda>(target_indices, d).
     and_then (VK_CHECK_RESULT (vkCall d)) (\<lambda>d.
     and_then (VK_CHECK_RESULT (vkCall d)) (\<lambda>d.
     and_then (VK_CHECK_RESULT (vkCall d)) (\<lambda>d.
     and_then (VK_CHECK_RESULT (vkCall d)) (\<lambda>d.
       Inr (target_vertices, target_indices, d)))))))))"

text \<open>
  The loop over the imported meshes. \<open>&materials[aMesh->mMaterialIndex]\<close> with an index
  outside \<open>materials\<close> has no defined behaviour; the model stops there.
\<close>

fun loadMeshes_loop ::
  "nat \<Rightarrow> 'f::{uminus,zero,one} aiMesh list \<Rightarrow> 'f MeshLoad \<Rightarrow> error + 'f MeshLoad" where
  "loadMeshes_loop material_count [] st = Inr st"
| "loadMeshes_loop material_count (aMesh # rest) st =
     (if mMaterialIndex aMesh \<ge> material_count then Inl OutOfBounds
      else
        and_then
          (append_faces (of_nat (length (gVertices st)))
             (unat (of_nat (length (mFaces aMesh)) * 3 :: 32 word))
             (mFaces aMesh) 0 (gIndices st, gIndexBase st)) (\<lambda>(indices, base).
             and_then (upload (load_gpu st)) (\<lambda>(vertices_buffer, indices_buffer, d).
               loadMeshes_loop material_count rest
                 \<lparr>gVertices = gVertices st
                     @ map (make_vertex (HasTextureCoords0 aMesh) (HasTangentsAndBitangents aMesh))
                         (mRows aMesh),
                  gIndices = indices,
                  gIndexBase = base,
                  built = built st @
                    [\<lparr>vertexBuffer = buffer vertices_buffer,
                      vertexMemory = memory vertices_buffer,
                      indexBuffer = buffer indices_buffer,
                      indexMemory = memory indices_buffer,
                      indexCount = of_nat (length (mFaces aMesh)) * 3,
                      indexBase = gIndexBase st,
                      descriptorSet = VK_NULL_HANDLE,
                      material = mMaterialIndex aMesh\<rparr>],
                  load_gpu = d\<rparr>)))"

text \<open>
  The last loop of \<open>loadMeshes\<close>: one descriptor set for each mesh, allocated from the pool
  (the writes that bind the uniform buffer and the four textures of the material return
  nothing and are left out).
\<close>

fun allocate_descriptor_sets :: "SceneMesh list \<Rightarrow> VkDevice \<Rightarrow> error + (SceneMesh list \<times> VkDevice)" where
  "allocate_descriptor_sets [] d = Inr ([], d)"
| "allocate_descriptor_sets (mesh # rest) d =
     and_then (VK_CHECK_RESULT (vkCreate KDescriptorSet d)) (\<lambda>(set_handle, d).
     and_then (allocate_descriptor_sets rest d) (\<lambda>(others, d).
       Inr (mesh\<lparr>descriptorSet := set_handle\<rparr> # others, d)))"

definition loadMeshes :: "'f::{uminus,zero,one} aiScene \<Rightarrow> 'f SceneWorld \<Rightarrow> error + 'f SceneWorld" where
  "loadMeshes imported w =
     and_then
       (loadMeshes_loop (length (materials (scene w))) (mMeshes imported)
          \<lparr>gVertices = [], gIndices = [], gIndexBase = 0, built = [], load_gpu = gpu w\<rparr>) (\<lambda>st.
     and_then (upload (load_gpu st)) (\<lambda>(vertices_buffer, indices_buffer, d).
     and_then (VK_CHECK_RESULT (vkCreate KDescriptorPool d)) (\<lambda>(pool, d).
     and_then (VK_CHECK_RESULT (vkCreate KDescriptorSetLayout d)) (\<lambda>(set_layout, d).
     and_then (VK_CHECK_RESULT (vkCreate KPipelineLayout d)) (\<lambda>(layout, d).
     and_then (allocate_descriptor_sets (built st) d) (\<lambda>(with_sets, d).
       Inr (w\<lparr>scene := (scene w)
               \<lparr>meshes := with_sets,
                globalVertexBuffer := vertices_buffer,
                globalIndexBuffer := indices_buffer,
                globalVertices := gVertices st,
                globalIndices := gIndices st,
                descriptorPool := pool,
                descriptorSetLayout := set_layout,
                pipelineLayout := layout\<rparr>,
              gpu := d\<rparr>)))))))"

subsection \<open>\<open>Scene::load\<close>\<close>

text \<open>
  \<open>imported\<close> is what \<open>Importer.ReadFile\<close> returned: the scene, or (for a null pointer) the
  importer's error string. The failure branch prints
  \<open>printf("Error parsing '%s': '%s'\n", filename, Importer.GetErrorString())\<close>.
\<close>

definition load :: "string \<Rightarrow> string + 'f::{uminus,zero,one} aiScene \<Rightarrow> 'f SceneWorld \<Rightarrow> error + 'f SceneWorld" where
  "load filename imported w =
     (case imported of
        Inr found \<Rightarrow>
          and_then (loadMaterials found (w\<lparr>scene := (scene w)\<lparr>aScene := Some found\<rparr>\<rparr>))
            (loadMeshes found)
      | Inl error_string \<Rightarrow>
          Inr (w\<lparr>scene := (scene w)\<lparr>aScene := None\<rparr>,
                 printed := printed w @
                   [''Error parsing '' @ [CHR 0x27] @ filename @ [CHR 0x27] @ '': ''
                      @ [CHR 0x27] @ error_string @ [CHR 0x27, CHR 0x0A]]\<rparr>))"

text \<open>
  The scene as its constructor leaves it (the handles and buffers are not set by the
  constructor; they are null here), in a world where nothing has been created or printed.
\<close>

definition new_scene :: "string \<Rightarrow> 'f Scene" where
  "new_scene path =
     \<lparr>assetPath = path, aScene = None, materials = [], meshes = [],
      globalVertexBuffer = \<lparr>buffer = VK_NULL_HANDLE, memory = VK_NULL_HANDLE\<rparr>,
      globalIndexBuffer = \<lparr>buffer = VK_NULL_HANDLE, memory = VK_NULL_HANDLE\<rparr>,
      globalVertices = [], globalIndices = [],
      descriptorPool = VK_NULL_HANDLE, descriptorSetLayout = VK_NULL_HANDLE,
      pipelineLayout = VK_NULL_HANDLE\<rparr>"

definition new_world :: "string \<Rightarrow> 'f SceneWorld" where
  "new_world path =
     \<lparr>scene = new_scene path, textures = [], pipelines = [],
      gpu = \<lparr>driver_results = [], created_objects = [], submitted = []\<rparr>,
      loaded_files = [], printed = []\<rparr>"

subsection \<open>Example models\<close>

text \<open>
  A small model: a triangle, a quad of two faces, and the triangle again; two imported
  materials, the first with a diffuse texture (its path written with a backslash), the
  second with none but with the same file as its specular texture and an opacity texture.
\<close>

definition example_row :: "int aiVertexRow" where
  "example_row = \<lparr>mVertex = (1, 2, 3), mNormal = (0, 1, 0), mTextureCoord = (0, 0, 0), mTangent = (1, 0, 0)\<rparr>"

definition triangle_mesh :: "int aiMesh" where
  "triangle_mesh =
     \<lparr>mName = ''triangle'', mMaterialIndex = 0, mRows = [example_row, example_row, example_row],
      HasTextureCoords0 = True, HasTangentsAndBitangents = False, mFaces = [(0, 1, 2)]\<rparr>"

definition quad_mesh :: "int aiMesh" where
  "quad_mesh =
     \<lparr>mName = ''quad'', mMaterialIndex = 1,
      mRows = [example_row, example_row, example_row, example_row],
      HasTextureCoords0 = False, HasTangentsAndBitangents = True,
      mFaces = [(0, 1, 2), (2, 3, 0)]\<rparr>"

definition example_model :: "int aiScene" where
  "example_model =
     \<lparr>mMaterials =
        [\<lparr>AI_MATKEY_NAME = ''wall'',
          aiTextureType_DIFFUSE = [''textures'' @ [CHR 0x5C] @ ''wall.dds''],
          aiTextureType_HEIGHT = [], aiTextureType_AMBIENT = [],
          aiTextureType_SPECULAR = [], aiTextureType_OPACITY = []\<rparr>,
         \<lparr>AI_MATKEY_NAME = ''leaf'',
          aiTextureType_DIFFUSE = [],
          aiTextureType_HEIGHT = [], aiTextureType_AMBIENT = [],
          aiTextureType_SPECULAR = [''textures/wall.dds''],
          aiTextureType_OPACITY = [''textures/leaf_mask.dds'']\<rparr>,
         \<lparr>AI_MATKEY_NAME = ''wall_again'',
          aiTextureType_DIFFUSE = [''textures/wall.dds''],
          aiTextureType_HEIGHT = [], aiTextureType_AMBIENT = [],
          aiTextureType_SPECULAR = [], aiTextureType_OPACITY = []\<rparr>],
      mMeshes = [triangle_mesh, quad_mesh, triangle_mesh]\<rparr>"


definition plain_material :: SceneMaterial where
  "plain_material =
     \<lparr>name = ''plain'', diffuse = 1, roughness = 2, metallic = 4, bump = 3,
      hasAlpha = False, hasBump = False, hasRoughness = False, hasMetaliness = False,
      pipeline = VK_NULL_HANDLE\<rparr>"

text \<open>A world in which \<open>loadMaterials\<close> has left two materials.\<close>

definition world_with_materials :: "int SceneWorld" where
  "world_with_materials =
     \<lparr>scene = (new_scene ''data/'')\<lparr>materials := [plain_material, plain_material]\<rparr>,
      textures = [], pipelines = [],
      gpu = \<lparr>driver_results = [], created_objects = [], submitted = []\<rparr>,
      loaded_files = [], printed = []\<rparr>"






section \<open>Recording the command buffers\<close>

text \<open>
  The commands recorded into a command buffer, with the arguments that tell them apart.
  \<open>CmdDrawIndexed\<close> has the five arguments of \<open>vkCmdDrawIndexed\<close> after the command
  buffer: \<open>indexCount\<close>, \<open>instanceCount\<close>, \<open>firstIndex\<close>, \<open>vertexOffset\<close> (an \<open>int32_t\<close>, kept
  as its 32 bits) and \<open>firstInstance\<close>. \<open>CmdPushConstants\<close> has the layout, the offset, the
  size and the \<open>int\<close> pushed.
\<close>

datatype command =
    CmdSetViewport
  | CmdSetScissor
  | CmdSetDepthBias
  | CmdBeginRenderPass handle handle
  | CmdBindPipeline handle
  | CmdBindDescriptorSets handle handle
  | CmdPushConstants handle nat nat int
  | CmdBindVertexBuffers handle
  | CmdBindIndexBuffer handle
  | CmdDrawIndexed "32 word" "32 word" "32 word" "32 word" "32 word"
  | CmdEndRenderPass

record MeshBuffer =
  vertices_buf :: handle
  indices_buf :: handle
  mesh_indexCount :: "32 word"

record Offscreen =
  offscreen_renderPass :: handle
  offscreen_frameBuffer :: handle

text \<open>
  The renderer, as far as the two recording functions use it: the shadow passes with the
  device, three of the registries of \<open>resources\<close>, the scene, the skysphere mesh, the
  offscreen framebuffer, the deferred command buffer and semaphore, and what has been
  recorded into each command buffer.
\<close>

record 'f Renderer =
  shadows :: ShadowState
  pipelineLayouts :: "handle VulkanResourceList"
  graphicsPipelines :: "handle VulkanResourceList"
  descriptorSets :: "handle VulkanResourceList"
  loadedScene :: "'f Scene"
  skysphere :: MeshBuffer
  offscreen :: Offscreen
  deferredCmdBuffer :: handle
  deferredSemaphore :: handle
  recorded :: "command_buffer_ref \<Rightarrow> command list"

text \<open>A checked creation call on the device of the renderer.\<close>

definition create_checked :: "object_kind \<Rightarrow> 'f Renderer \<Rightarrow> error + (handle \<times> 'f Renderer)" where
  "create_checked kind r =
     and_then (VK_CHECK_RESULT (vkCreate kind (device (shadows r)))) (\<lambda>(h, d).
       Inr (h, r\<lparr>shadows := (shadows r)\<lparr>device := d\<rparr>\<rparr>))"

text \<open>A checked call that creates nothing (\<open>vkBeginCommandBuffer\<close>, \<open>vkEndCommandBuffer\<close>).\<close>

definition call_checked :: "'f Renderer \<Rightarrow> error + 'f Renderer" where
  "call_checked r =
     and_then (VK_CHECK_RESULT (vkCall (device (shadows r)))) (\<lambda>d.
       Inr (r\<lparr>shadows := (shadows r)\<lparr>device := d\<rparr>\<rparr>))"

text \<open>\<open>vkCmdDrawIndexed(cmd, mesh.indexCount, 1, 0, mesh.indexBase, 0)\<close>.\<close>

definition draw_mesh :: "SceneMesh \<Rightarrow> command" where
  "draw_mesh mesh = CmdDrawIndexed (indexCount mesh) 1 0 (indexBase mesh) 0"

text \<open>
  The loop over \<open>scene->meshes\<close> in the shadow pass: a mesh whose material has \<open>hasAlpha\<close>
  is skipped, any other is drawn. \<open>mesh.material->hasAlpha\<close> reads the material the mesh
  points to; a pointer outside \<open>materials\<close> has no defined behaviour.
\<close>

fun shadow_draws :: "SceneMaterial list \<Rightarrow> SceneMesh list \<Rightarrow> command list \<Rightarrow> error + command list" where
  "shadow_draws mats [] cmds = Inr cmds"
| "shadow_draws mats (mesh # rest) cmds =
     (if material mesh \<ge> length mats then Inl OutOfBounds
      else if hasAlpha (mats ! material mesh) then shadow_draws mats rest cmds
      else shadow_draws mats rest (cmds @ [draw_mesh mesh]))"

text \<open>
  The two loops over \<open>scene->meshes\<close> in the deferred pass, for the meshes whose material
  has \<open>hasAlpha\<close> equal to \<open>alpha\<close>: the descriptor set of the mesh is bound, then the mesh is
  drawn.
\<close>

fun deferred_draws ::
  "bool \<Rightarrow> handle \<Rightarrow> SceneMaterial list \<Rightarrow> SceneMesh list \<Rightarrow> command list \<Rightarrow> error + command list" where
  "deferred_draws alpha layout mats [] cmds = Inr cmds"
| "deferred_draws alpha layout mats (mesh # rest) cmds =
     (if material mesh \<ge> length mats then Inl OutOfBounds
      else if hasAlpha (mats ! material mesh) = alpha
      then deferred_draws alpha layout mats rest
             (cmds @ [CmdBindDescriptorSets layout (descriptorSet mesh), draw_mesh mesh])
      else deferred_draws alpha layout mats rest cmds)"

text \<open>
  The body of the loop of \<open>buildShadowmapCommandBuffer\<close> for light \<open>i\<close>, in its four
  parts: the command buffer is allocated if there is none; the semaphore is created if
  there is none; \<open>vkBeginCommandBuffer\<close>; then the commands up to \<open>vkEndCommandBuffer\<close>.
\<close>

definition ensure_command_buffer :: "nat \<Rightarrow> 'f Renderer \<Rightarrow> error + 'f Renderer" where
  "ensure_command_buffer i r =
     (if commandBuffer (shadowmapPass (shadows r) ! i) = VK_NULL_HANDLE
      then and_then (create_checked KCommandBuffer r) (\<lambda>(h, r).
             Inr (r\<lparr>shadows := update_pass i (\<lambda>p. p\<lparr>commandBuffer := h\<rparr>) (shadows r)\<rparr>))
      else Inr r)"

definition ensure_semaphore :: "nat \<Rightarrow> 'f Renderer \<Rightarrow> error + 'f Renderer" where
  "ensure_semaphore i r =
     (if semaphore (shadowmapPass (shadows r) ! i) = VK_NULL_HANDLE
      then and_then (create_checked KSemaphore r) (\<lambda>(h, r).
             Inr (r\<lparr>shadows := update_pass i (\<lambda>p. p\<lparr>semaphore := h\<rparr>) (shadows r)\<rparr>))
      else Inr r)"

definition record_shadowmap_commands :: "nat \<Rightarrow> 'f Renderer \<Rightarrow> error + 'f Renderer" where
  "record_shadowmap_commands i r =
     (case get (pipelineLayouts r) ''shadowmap'' of (layout, layouts) \<Rightarrow>
      case get (graphicsPipelines r) ''shadowmap'' of (shadow_pipeline, pipes) \<Rightarrow>
      case getPtr (descriptorSets r) ''shadowmap'' of (shadow_set, sets) \<Rightarrow>
      and_then
        (shadow_draws (materials (loadedScene r)) (meshes (loadedScene r))
           [CmdSetViewport, CmdSetScissor, CmdSetDepthBias,
            CmdBeginRenderPass (renderPass (shadowmapPass (shadows r) ! i))
              (frameBuffer (shadowmapPass (shadows r) ! i)),
            CmdBindPipeline shadow_pipeline,
            CmdBindDescriptorSets layout shadow_set,
            CmdPushConstants layout 0 4 (int i),
            CmdBindVertexBuffers (buffer (globalVertexBuffer (loadedScene r))),
            CmdBindIndexBuffer (buffer (globalIndexBuffer (loadedScene r)))]) (\<lambda>cmds.
      and_then
        (call_checked (r\<lparr>pipelineLayouts := layouts, graphicsPipelines := pipes,
                           descriptorSets := sets\<rparr>)) (\<lambda>r.
        Inr (r\<lparr>recorded := (recorded r)(ShadowmapCommandBuffer i := cmds @ [CmdEndRenderPass])\<rparr>))))"

definition record_shadowmap :: "nat \<Rightarrow> 'f Renderer \<Rightarrow> error + 'f Renderer" where
  "record_shadowmap i r =
     and_then (ensure_command_buffer i r) (\<lambda>r.
     and_then (ensure_semaphore i r) (\<lambda>r.
     and_then (call_checked r) (record_shadowmap_commands i)))"

fun buildShadowmapCommandBuffer_loop :: "nat list \<Rightarrow> 'f Renderer \<Rightarrow> error + 'f Renderer" where
  "buildShadowmapCommandBuffer_loop [] r = Inr r"
| "buildShadowmapCommandBuffer_loop (i # rest) r =
     and_then (record_shadowmap i r) (buildShadowmapCommandBuffer_loop rest)"

definition buildShadowmapCommandBuffer :: "'f Renderer \<Rightarrow> error + 'f Renderer" where
  "buildShadowmapCommandBuffer r = buildShadowmapCommandBuffer_loop [0..<NUM_LIGHTS] r"

text \<open>
  \<open>buildDeferredCommandBuffer(rebuild)\<close>, in its four parts. The command buffer is made
  when there is none or on \<open>rebuild\<close> (the old one is freed first); a semaphore is created
  on every call; \<open>vkBeginCommandBuffer\<close>; then the commands up to \<open>vkEndCommandBuffer\<close>.
\<close>

definition ensure_deferred_command_buffer :: "bool \<Rightarrow> 'f Renderer \<Rightarrow> error + 'f Renderer" where
  "ensure_deferred_command_buffer rebuild r =
     (if deferredCmdBuffer r = VK_NULL_HANDLE \<or> rebuild
      then and_then (create_checked KCommandBuffer r) (\<lambda>(h, r). Inr (r\<lparr>deferredCmdBuffer := h\<rparr>))
      else Inr r)"

definition create_deferred_semaphore :: "'f Renderer \<Rightarrow> error + 'f Renderer" where
  "create_deferred_semaphore r =
     and_then (create_checked KSemaphore r) (\<lambda>(h, r). Inr (r\<lparr>deferredSemaphore := h\<rparr>))"

definition record_deferred_commands :: "'f Renderer \<Rightarrow> error + 'f Renderer" where
  "record_deferred_commands r =
     (case get (graphicsPipelines r) ''skysphere'' of (sky_pipeline, pipes) \<Rightarrow>
      case get (pipelineLayouts r) ''skysphere'' of (sky_layout, layouts) \<Rightarrow>
      case getPtr (descriptorSets r) ''skysphere'' of (sky_set, sets) \<Rightarrow>
      case get pipes ''scene.solid'' of (solid, pipes) \<Rightarrow>
      and_then
        (deferred_draws False (pipelineLayout (loadedScene r))
           (materials (loadedScene r)) (meshes (loadedScene r))
           [CmdBeginRenderPass (offscreen_renderPass (offscreen r)) (offscreen_frameBuffer (offscreen r)),
            CmdSetViewport, CmdSetScissor,
            CmdBindPipeline sky_pipeline,
            CmdBindDescriptorSets sky_layout sky_set,
            CmdBindVertexBuffers (vertices_buf (skysphere r)),
            CmdBindIndexBuffer (indices_buf (skysphere r)),
            CmdDrawIndexed (mesh_indexCount (skysphere r)) 1 0 0 0,
            CmdBindPipeline solid,
            CmdBindVertexBuffers (buffer (globalVertexBuffer (loadedScene r))),
            CmdBindIndexBuffer (buffer (globalIndexBuffer (loadedScene r)))]) (\<lambda>cmds.
      case get pipes ''scene.blend'' of (blend, pipes) \<Rightarrow>
      and_then
        (deferred_draws True (pipelineLayout (loadedScene r))
           (materials (loadedScene r)) (meshes (loadedScene r))
           (cmds @ [CmdBindPipeline blend])) (\<lambda>cmds.
      and_then
        (call_checked (r\<lparr>pipelineLayouts := layouts, graphicsPipelines := pipes,
                           descriptorSets := sets\<rparr>)) (\<lambda>r.
        Inr (r\<lparr>recorded := (recorded r)(DeferredCmdBuffer := cmds @ [CmdEndRenderPass])\<rparr>)))))"

definition buildDeferredCommandBuffer :: "bool \<Rightarrow> 'f Renderer \<Rightarrow> error + 'f Renderer" where
  "buildDeferredCommandBuffer rebuild r =
     and_then (ensure_deferred_command_buffer rebuild r) (\<lambda>r.
     and_then (create_deferred_semaphore r) (\<lambda>r.
     and_then (call_checked r) record_deferred_commands))"

text \<open>The opaque and the alpha-tested meshes of a scene, in scene order.\<close>

definition meshes_with_alpha :: "bool \<Rightarrow> 'f Scene \<Rightarrow> SceneMesh list" where
  "meshes_with_alpha alpha sc =
     filter (\<lambda>mesh. hasAlpha (materials sc ! material mesh) = alpha) (meshes sc)"

text \<open>Whether a command is a draw.\<close>

fun is_draw :: "command \<Rightarrow> bool" where
  "is_draw (CmdDrawIndexed a b c d e) = True"
| "is_draw other = False"

text \<open>
  What the shadow pass of light \<open>i\<close> holds after recording, in terms of the renderer before,
  and likewise the deferred pass.
\<close>

definition shadowmap_commands :: "'f Renderer \<Rightarrow> nat \<Rightarrow> command list" where
  "shadowmap_commands r i =
     [CmdSetViewport, CmdSetScissor, CmdSetDepthBias,
      CmdBeginRenderPass (renderPass (shadowmapPass (shadows r) ! i))
        (frameBuffer (shadowmapPass (shadows r) ! i)),
      CmdBindPipeline (fst (get (graphicsPipelines r) ''shadowmap'')),
      CmdBindDescriptorSets (fst (get (pipelineLayouts r) ''shadowmap''))
        (fst (getPtr (descriptorSets r) ''shadowmap'')),
      CmdPushConstants (fst (get (pipelineLayouts r) ''shadowmap'')) 0 4 (int i),
      CmdBindVertexBuffers (buffer (globalVertexBuffer (loadedScene r))),
      CmdBindIndexBuffer (buffer (globalIndexBuffer (loadedScene r)))]
     @ map draw_mesh (meshes_with_alpha False (loadedScene r))
     @ [CmdEndRenderPass]"

definition bind_and_draw :: "handle \<Rightarrow> SceneMesh \<Rightarrow> command list" where
  "bind_and_draw layout mesh = [CmdBindDescriptorSets layout (descriptorSet mesh), draw_mesh mesh]"

definition deferred_commands :: "'f Renderer \<Rightarrow> command list" where
  "deferred_commands r =
     [CmdBeginRenderPass (offscreen_renderPass (offscreen r)) (offscreen_frameBuffer (offscreen r)),
      CmdSetViewport, CmdSetScissor,
      CmdBindPipeline (fst (get (graphicsPipelines r) ''skysphere'')),
      CmdBindDescriptorSets (fst (get (pipelineLayouts r) ''skysphere''))
        (fst (getPtr (descriptorSets r) ''skysphere'')),
      CmdBindVertexBuffers (vertices_buf (skysphere r)),
      CmdBindIndexBuffer (indices_buf (skysphere r)),
      CmdDrawIndexed (mesh_indexCount (skysphere r)) 1 0 0 0,
      CmdBindPipeline (fst (get (graphicsPipelines r) ''scene.solid'')),
      CmdBindVertexBuffers (buffer (globalVertexBuffer (loadedScene r))),
      CmdBindIndexBuffer (buffer (globalIndexBuffer (loadedScene r)))]
     @ concat (map (bind_and_draw (pipelineLayout (loadedScene r)))
         (meshes_with_alpha False (loadedScene r)))
     @ [CmdBindPipeline (fst (get (graphicsPipelines r) ''scene.blend''))]
     @ concat (map (bind_and_draw (pipelineLayout (loadedScene r)))
         (meshes_with_alpha True (loadedScene r)))
     @ [CmdEndRenderPass]"

text \<open>
  What a recording step leaves as it was: the scene, the skysphere, the offscreen
  framebuffer, the render pass and framebuffer of every shadow pass, and what a lookup
  in each of the three registries returns.
\<close>

definition same_setup :: "'f Renderer \<Rightarrow> 'f Renderer \<Rightarrow> bool" where
  "same_setup r r' \<longleftrightarrow>
     loadedScene r' = loadedScene r \<and> skysphere r' = skysphere r \<and> offscreen r' = offscreen r
     \<and> (\<forall>j. renderPass (shadowmapPass (shadows r') ! j) = renderPass (shadowmapPass (shadows r) ! j))
     \<and> (\<forall>j. frameBuffer (shadowmapPass (shadows r') ! j) = frameBuffer (shadowmapPass (shadows r) ! j))
     \<and> (\<forall>k. fst (get (pipelineLayouts r') k) = fst (get (pipelineLayouts r) k))
     \<and> (\<forall>k. fst (get (graphicsPipelines r') k) = fst (get (graphicsPipelines r) k))
     \<and> (\<forall>k. fst (getPtr (descriptorSets r') k) = fst (getPtr (descriptorSets r) k))"

text \<open>
  The vertex shader of the shadow pass transforms the position by
  \<open>ubo.depthMVP[pushConsts.lightIdx]\<close>: the matrix it selects, and the values that a command
  buffer pushes.
\<close>

definition selected_depthMVP :: "'m list \<Rightarrow> int \<Rightarrow> 'm" where
  "selected_depthMVP depthMVP lightIdx = depthMVP ! nat lightIdx"

fun push_constant :: "command \<Rightarrow> int option" where
  "push_constant (CmdPushConstants layout offset bytes v) = Some v"
| "push_constant other = None"

definition before_draws :: "command list \<Rightarrow> command list" where
  "before_draws cmds = takeWhile (\<lambda>c. \<not> is_draw c) cmds"

text \<open>
  A renderer for the examples: a scene of three meshes, the second with an alpha-tested
  material, on a device that refuses nothing; nothing is recorded yet.
\<close>

definition example_scene :: "int Scene" where
  "example_scene =
     (new_scene ''data/'')
       \<lparr>materials := [plain_material, plain_material\<lparr>name := ''leaf'', hasAlpha := True\<rparr>],
        meshes :=
          [\<lparr>vertexBuffer = 8, vertexMemory = 9, indexBuffer = 12, indexMemory = 13,
            indexCount = 3, indexBase = 0, descriptorSet = 41, material = 0\<rparr>,
           \<lparr>vertexBuffer = 16, vertexMemory = 17, indexBuffer = 20, indexMemory = 21,
            indexCount = 6, indexBase = 3, descriptorSet = 42, material = 1\<rparr>,
           \<lparr>vertexBuffer = 24, vertexMemory = 25, indexBuffer = 28, indexMemory = 29,
            indexCount = 3, indexBase = 9, descriptorSet = 43, material = 0\<rparr>],
        globalVertexBuffer := \<lparr>buffer = 32, memory = 33\<rparr>,
        globalIndexBuffer := \<lparr>buffer = 36, memory = 37\<rparr>,
        pipelineLayout := 40\<rparr>"

definition example_renderer :: "int Renderer" where
  "example_renderer =
     \<lparr>shadows = fresh_shadow_state,
      pipelineLayouts = [(''shadowmap'', 50), (''skysphere'', 51)],
      graphicsPipelines = [(''shadowmap'', 60), (''skysphere'', 61), (''scene.solid'', 62),
                           (''scene.blend'', 63)],
      descriptorSets = [(''shadowmap'', 70), (''skysphere'', 71)],
      loadedScene = example_scene,
      skysphere = \<lparr>vertices_buf = 80, indices_buf = 81, mesh_indexCount = 300\<rparr>,
      offscreen = \<lparr>offscreen_renderPass = 90, offscreen_frameBuffer = 91\<rparr>,
      deferredCmdBuffer = VK_NULL_HANDLE,
      deferredSemaphore = VK_NULL_HANDLE,
      recorded = (\<lambda>c. [])\<rparr>"

text \<open>
  What an indexed draw reads, by the rule of the Vulkan API for \<open>vkCmdDrawIndexed\<close>: the
  \<open>indexCount\<close> entries of the bound index buffer from \<open>firstIndex\<close> on, each with
  \<open>vertexOffset\<close> added, are the vertices it fetches. Beside it the range of the global index
  list that \<open>loadMeshes\<close> filled for a mesh, from its \<open>indexBase\<close> on.
\<close>

fun fetched_vertices :: "32 word list \<Rightarrow> command \<Rightarrow> 32 word list" where
  "fetched_vertices indices (CmdDrawIndexed index_count instances first_index vertex_offset first_instance) =
     map (\<lambda>i. i + vertex_offset) (take (unat index_count) (drop (unat first_index) indices))"
| "fetched_vertices indices other = []"

definition index_range :: "32 word list \<Rightarrow> SceneMesh \<Rightarrow> 32 word list" where
  "index_range indices mesh = take (unat (indexCount mesh)) (drop (unat (indexBase mesh)) indices)"

text \<open>
  The example model loaded by \<open>loadMeshes\<close>, and the shadow passes recorded for the scene
  that it returns.
\<close>

definition loaded_example :: "error + int SceneWorld" where
  "loaded_example = loadMeshes example_model world_with_materials"

definition recorded_example :: "error + int Renderer" where
  "recorded_example =
     and_then loaded_example
       (\<lambda>w. buildShadowmapCommandBuffer (example_renderer\<lparr>loadedScene := scene w\<rparr>))"

section \<open>Registry: properties\<close>

lemma map_of_assign: "map_of (assign r key h) = (map_of r)(key \<mapsto> h)"
  by (simp add: assign_def update_conv')

lemma map_of_subscript:
  "map_of (snd (subscript r key)) =
     (case map_of r key of Some h \<Rightarrow> map_of r | None \<Rightarrow> (map_of r)(key \<mapsto> default))"
  by (auto simp: subscript_def map_add_def fun_eq_iff split: option.splits)

lemma fst_subscript:
  "fst (subscript r key) = (case map_of r key of Some h \<Rightarrow> h | None \<Rightarrow> default)"
  by (simp add: subscript_def split: option.splits)

lemma map_of_call:
  "map_of (call r c) =
     (case c of
        Add n h \<Rightarrow> (map_of r)(n \<mapsto> h)
      | Get n \<Rightarrow> (case map_of r n of Some h \<Rightarrow> map_of r | None \<Rightarrow> (map_of r)(n \<mapsto> default))
      | GetPtr n \<Rightarrow> (case map_of r n of Some h \<Rightarrow> map_of r | None \<Rightarrow> (map_of r)(n \<mapsto> default))
      | Present n \<Rightarrow> map_of r)"
  by (cases c) (simp_all add: add_def get_def getPtr_def map_of_assign map_of_subscript)

lemma call_keeps_present: "present r key \<Longrightarrow> present (call r c) key"
  by (cases c) (auto simp: present_def map_of_call simp del: call.simps split: option.splits)

lemma run_keeps_present: "present r key \<Longrightarrow> present (run r cs) key"
  by (induction cs arbitrary: r) (simp_all add: call_keeps_present del: call.simps)

lemma call_untouched: "key \<notin> touched c \<Longrightarrow> map_of (call r c) key = map_of r key"
  by (cases c) (auto simp: map_of_call simp del: call.simps split: option.splits)

lemma run_untouched:
  "key \<notin> (\<Union>c \<in> set cs. touched c) \<Longrightarrow> map_of (run r cs) key = map_of r key"
  by (induction cs arbitrary: r) (simp_all add: call_untouched del: call.simps)

lemma last_added_handle_of:
  "handle_of acc = handle_of acc' \<Longrightarrow>
   handle_of (last_added cs key acc) = handle_of (last_added cs key acc')"
proof (induction cs arbitrary: acc acc')
  case Nil
  then show ?case by simp
next
  case (Cons c cs)
  show ?case
  proof (cases c)
    case (Add n h)
    show ?thesis
    proof (cases "n = key")
      case True
      with Add show ?thesis by simp
    next
      case False
      with Add Cons.IH [OF Cons.prems] show ?thesis by simp
    qed
  next
    case (Get n)
    with Cons.IH [OF Cons.prems] show ?thesis by simp
  next
    case (GetPtr n)
    with Cons.IH [OF Cons.prems] show ?thesis by simp
  next
    case (Present n)
    with Cons.IH [OF Cons.prems] show ?thesis by simp
  qed
qed

lemma handle_of_call:
  "handle_of (map_of (call r c) key) =
     (case c of Add n h \<Rightarrow> if n = key then h else handle_of (map_of r key)
              | _ \<Rightarrow> handle_of (map_of r key))"
  by (cases c) (auto simp: map_of_call handle_of_def simp del: call.simps split: option.splits)

lemma run_last_added:
  "handle_of (map_of (run r cs) key) = handle_of (last_added cs key (map_of r key))"
proof (induction cs arbitrary: r)
  case Nil
  show ?case by simp
next
  case (Cons c cs)
  have step: "handle_of (map_of (run (call r c) cs) key)
                = handle_of (last_added cs key (map_of (call r c) key))"
    by (rule Cons.IH)
  show ?case
  proof (cases c)
    case (Add n h)
    have "handle_of (map_of (call r c) key) = (if n = key then h else handle_of (map_of r key))"
      by (simp add: handle_of_call Add del: call.simps)
    also have "\<dots> = handle_of (if n = key then Some h else map_of r key)"
      by (simp add: handle_of_def)
    finally have "handle_of (last_added cs key (map_of (call r c) key))
                 = handle_of (last_added cs key (if n = key then Some h else map_of r key))"
      by (rule last_added_handle_of)
    with step Add show ?thesis by (simp del: call.simps)
  next
    case (Get n)
    have "handle_of (map_of (call r c) key) = handle_of (map_of r key)"
      by (simp add: handle_of_call Get del: call.simps)
    then have "handle_of (last_added cs key (map_of (call r c) key))
                 = handle_of (last_added cs key (map_of r key))"
      by (rule last_added_handle_of)
    with step Get show ?thesis by (simp del: call.simps)
  next
    case (GetPtr n)
    have "handle_of (map_of (call r c) key) = handle_of (map_of r key)"
      by (simp add: handle_of_call GetPtr del: call.simps)
    then have "handle_of (last_added cs key (map_of (call r c) key))
                 = handle_of (last_added cs key (map_of r key))"
      by (rule last_added_handle_of)
    with step GetPtr show ?thesis by (simp del: call.simps)
  next
    case (Present n)
    with step show ?thesis by simp
  qed
qed


lemma add_makes_present: "Add key h \<in> set cs \<Longrightarrow> present (run r cs) key"
proof (induction cs arbitrary: r)
  case Nil
  then show ?case by simp
next
  case (Cons c cs)
  show ?case
  proof (cases "c = Add key h")
    case True
    have "present (call r c) key"
      by (simp add: True present_def map_of_call del: call.simps)
    then show ?thesis by (simp add: run_keeps_present del: call.simps)
  next
    case False
    with Cons.prems have "Add key h \<in> set cs" by simp
    then show ?thesis by (simp add: Cons.IH del: call.simps)
  qed
qed

text \<open>
  C3 (as amended). On a registry that starts empty: \<open>present key\<close> is false as long as
  no \<open>add\<close>, \<open>get\<close> or \<open>getPtr\<close> has been called with the key, and true once \<open>add\<close> has
  been called with it; \<open>get key\<close> returns the handle of the most recent \<open>add\<close> under the
  key, and the default handle when there was none. \<open>get\<close> is total: it raises nothing.
\<close>

theorem registry_present_get:
  fixes cs :: "'h::default reg_call list"
  shows "(key \<notin> (\<Union>c \<in> set cs. touched c) \<longrightarrow> \<not> present (run [] cs) key)
       \<and> (Add key h \<in> set cs \<longrightarrow> present (run [] cs) key)
       \<and> fst (get (run [] cs) key) = handle_of (last_added cs key None)"
proof -
  have a: "key \<notin> (\<Union>c \<in> set cs. touched c) \<Longrightarrow> \<not> present (run [] cs) key"
    using run_untouched [of key cs "[]"] by (simp add: present_def)
  have b: "Add key h \<in> set cs \<Longrightarrow> present (run [] cs) key"
    by (rule add_makes_present)
  have "fst (get (run [] cs) key) = handle_of (map_of (run [] cs) key)"
    by (simp add: get_def fst_subscript handle_of_def)
  also have "\<dots> = handle_of (last_added cs key (map_of [] key))"
    by (rule run_last_added)
  finally have c: "fst (get (run [] cs) key) = handle_of (last_added cs key None)"
    by simp
  from a b c show ?thesis by blast
qed

theorem registry_present_get_witness:
  "''c'' \<notin> (\<Union>c \<in> set [Add ''a'' (5::nat), Get ''b'', Add ''a'' 6]. touched c)
   \<and> \<not> present (run [] [Add ''a'' (5::nat), Get ''b'', Add ''a'' 6]) ''c''
   \<and> Add ''a'' 6 \<in> set [Add ''a'' (5::nat), Get ''b'', Add ''a'' 6]
   \<and> present (run [] [Add ''a'' (5::nat), Get ''b'', Add ''a'' 6]) ''a''
   \<and> fst (get (run [] [Add ''a'' (5::nat), Get ''b'', Add ''a'' 6]) ''a'') = 6
   \<and> fst (get (run [] [Add ''a'' (5::nat), Get ''b'', Add ''a'' 6]) ''c'') = VK_NULL_HANDLE"
  using registry_present_get [of "''c''" "[Add ''a'' (5::nat), Get ''b'', Add ''a'' 6]" 6]
        registry_present_get [of "''a''" "[Add ''a'' (5::nat), Get ''b'', Add ''a'' 6]" 6]
  by (simp add: handle_of_def default_nat_def)

text \<open>
  Without the amendment the statement fails: on a fresh pipeline registry, for which
  \<open>add\<close> has never been called, one \<open>get\<close> of a key makes \<open>present\<close> of that key true.
\<close>

theorem present_true_without_add:
  "present (snd (get ([] :: handle VulkanResourceList) ''shadowmap'')) ''shadowmap''"
  by (simp add: present_def get_def subscript_def)



section \<open>Memory type helper: properties\<close>

declare getMemTypeIndex_from.simps [simp del]

lemma and_one_bit0: "(w AND 1 = 1) = bit w 0" for w :: "32 word"
  by (simp add: and_one_eq bit_0 odd_iff_mod_2_eq_one)

lemma getMemTypeIndex_from_hit:
  assumes "i < 32" and "suitable dmp typeBits properties i"
  shows "getMemTypeIndex_from dmp i (drop_bit i typeBits) properties = i"
proof -
  from assms(2) have "drop_bit i typeBits AND 1 = 1"
    and "propertyFlags (memoryTypes dmp i) AND properties = properties"
    by (simp_all add: suitable_def and_one_bit0 bit_drop_bit_eq)
  with assms(1) show ?thesis
    by (subst getMemTypeIndex_from.simps) simp
qed

lemma getMemTypeIndex_from_miss:
  assumes "i < 32" and "\<not> suitable dmp typeBits properties i"
  shows "getMemTypeIndex_from dmp i (drop_bit i typeBits) properties
           = getMemTypeIndex_from dmp (Suc i) (drop_bit (Suc i) typeBits) properties"
proof -
  have shift: "drop_bit 1 (drop_bit i typeBits) = drop_bit (Suc i) typeBits"
    by (simp add: drop_bit_drop_bit)
  from assms(2) have "drop_bit i typeBits AND 1 \<noteq> 1
      \<or> propertyFlags (memoryTypes dmp i) AND properties \<noteq> properties"
    by (simp add: suitable_def and_one_bit0 bit_drop_bit_eq)
  with assms(1) shift show ?thesis
    by (subst getMemTypeIndex_from.simps) auto
qed

lemma getMemTypeIndex_from_least:
  assumes "suitable dmp typeBits properties k" and "i \<le> k" and "k < 32"
  shows "i \<le> getMemTypeIndex_from dmp i (drop_bit i typeBits) properties
       \<and> getMemTypeIndex_from dmp i (drop_bit i typeBits) properties \<le> k
       \<and> suitable dmp typeBits properties (getMemTypeIndex_from dmp i (drop_bit i typeBits) properties)
       \<and> (\<forall>j. i \<le> j \<and> j < getMemTypeIndex_from dmp i (drop_bit i typeBits) properties
              \<longrightarrow> \<not> suitable dmp typeBits properties j)"
  using assms
proof (induction "k - i" arbitrary: i)
  case 0
  then have "i = k" by simp
  with 0 show ?case
    by (auto simp: getMemTypeIndex_from_hit)
next
  case (Suc n)
  then have ik: "i < k" and i32: "i < 32" by simp_all
  show ?case
  proof (cases "suitable dmp typeBits properties i")
    case True
    with i32 have "getMemTypeIndex_from dmp i (drop_bit i typeBits) properties = i"
      by (rule getMemTypeIndex_from_hit)
    with True ik show ?thesis by auto
  next
    case False
    with i32 have step: "getMemTypeIndex_from dmp i (drop_bit i typeBits) properties
             = getMemTypeIndex_from dmp (Suc i) (drop_bit (Suc i) typeBits) properties"
      by (rule getMemTypeIndex_from_miss)
    have "n = k - Suc i" using Suc.hyps(2) by simp
    from Suc.hyps(1) [OF this Suc.prems(1) _ Suc.prems(3)] ik
    have IH: "Suc i \<le> getMemTypeIndex_from dmp (Suc i) (drop_bit (Suc i) typeBits) properties
       \<and> getMemTypeIndex_from dmp (Suc i) (drop_bit (Suc i) typeBits) properties \<le> k
       \<and> suitable dmp typeBits properties (getMemTypeIndex_from dmp (Suc i) (drop_bit (Suc i) typeBits) properties)
       \<and> (\<forall>j. Suc i \<le> j \<and> j < getMemTypeIndex_from dmp (Suc i) (drop_bit (Suc i) typeBits) properties
              \<longrightarrow> \<not> suitable dmp typeBits properties j)"
      by simp
    show ?thesis
      unfolding step using IH False
      by (metis Suc_leD Suc_leI le_neq_implies_less)
  qed
qed

text \<open>
  C8 (as amended). Whenever some index below 32 has its bit set in \<open>typeBits\<close> and its
  \<open>propertyFlags\<close> contain every bit of \<open>properties\<close>, \<open>getMemTypeIndex\<close> returns such an
  index, and the lowest one.
\<close>

theorem getMemTypeIndex_lowest_suitable:
  assumes "\<exists>k<32. bit typeBits k \<and> propertyFlags (memoryTypes deviceMemProps k) AND properties = properties"
  shows "getMemTypeIndex deviceMemProps typeBits properties < 32
       \<and> bit typeBits (getMemTypeIndex deviceMemProps typeBits properties)
       \<and> propertyFlags (memoryTypes deviceMemProps (getMemTypeIndex deviceMemProps typeBits properties))
             AND properties = properties
       \<and> (\<forall>j < getMemTypeIndex deviceMemProps typeBits properties.
             \<not> (bit typeBits j \<and> propertyFlags (memoryTypes deviceMemProps j) AND properties = properties))"
proof -
  from assms obtain k where k: "k < 32" "suitable deviceMemProps typeBits properties k"
    by (auto simp: suitable_def)
  from getMemTypeIndex_from_least [OF k(2) _ k(1), of 0] k(1)
  show ?thesis
    by (auto simp: getMemTypeIndex_def suitable_def)
qed

theorem getMemTypeIndex_lowest_suitable_witness:
  "(\<exists>k<32. bit (3 :: 32 word) k
        \<and> propertyFlags (memoryTypes example_memory k) AND 2 = 2)
   \<and> getMemTypeIndex example_memory 3 2 = 1
   \<and> bit (3 :: 32 word) (getMemTypeIndex example_memory 3 2)
   \<and> propertyFlags (memoryTypes example_memory (getMemTypeIndex example_memory 3 2)) AND 2 = 2"
proof -
  have "bit (3 :: 32 word) 1 \<and> propertyFlags (memoryTypes example_memory 1) AND 2 = 2"
    by (simp add: example_memory_def bit_numeral_word_iff)
  then have some: "\<exists>k<32. bit (3 :: 32 word) k
        \<and> propertyFlags (memoryTypes example_memory k) AND 2 = 2"
    by (intro exI [of _ 1]) simp
  have run: "getMemTypeIndex example_memory 3 2 = 1"
    by code_simp
  from getMemTypeIndex_lowest_suitable [OF some] some run show ?thesis
    by simp
qed

text \<open>
  Without the amendment the statement fails. On the example device, a resource that only
  allows memory type 1 (\<open>typeBits = 2\<close>) and asks for device-local memory
  (\<open>properties = 1\<close>) has no suitable type; the loop runs out and the function returns
  index 0, whose bit is not set in \<open>typeBits\<close>.
\<close>

theorem getMemTypeIndex_unsuitable_fallback:
  "getMemTypeIndex example_memory 2 1 = 0
   \<and> \<not> bit (2 :: 32 word) (getMemTypeIndex example_memory 2 1)"
proof -
  have "getMemTypeIndex example_memory 2 1 = 0"
    by code_simp
  then show ?thesis by simp
qed

section \<open>Frame submission: properties\<close>

lemma and_then_Inr: "and_then r f = Inr b \<longleftrightarrow> (\<exists>a. r = Inr a \<and> f a = Inr b)"
  by (simp add: and_then_def split: sum.splits)

lemma submit_Inr:
  "submit s = Inr s' \<Longrightarrow>
     submitInfo s' = submitInfo s \<and> currentBuffer s' = currentBuffer s
     \<and> submitted (queue s') = submitted (queue s) @ [submitInfo s]"
  by (auto simp: submit_def and_then_def VK_CHECK_RESULT_def vkQueueSubmit_def next_result_def
      split: sum.splits list.splits if_splits prod.splits)

text \<open>What one submission says about semaphores, counts and command buffer.\<close>

lemma draw_links:
  assumes "draw s = Inr s'"
  shows "submitted (queue s') = submitted (queue s) @ submissions_of s s'
       \<and> map link (submissions_of s s') =
           [(waitSemaphoreCount (submitInfo s), PresentComplete,
             signalSemaphoreCount (submitInfo s), ShadowmapSemaphore 0, ShadowmapCommandBuffer 0),
            (waitSemaphoreCount (submitInfo s), ShadowmapSemaphore 0,
             signalSemaphoreCount (submitInfo s), ShadowmapSemaphore 1, ShadowmapCommandBuffer 1),
            (waitSemaphoreCount (submitInfo s), ShadowmapSemaphore 1,
             signalSemaphoreCount (submitInfo s), ShadowmapSemaphore 2, ShadowmapCommandBuffer 2),
            (waitSemaphoreCount (submitInfo s), ShadowmapSemaphore 2,
             signalSemaphoreCount (submitInfo s), DeferredSemaphore, DeferredCmdBuffer),
            (waitSemaphoreCount (submitInfo s), DeferredSemaphore,
             signalSemaphoreCount (submitInfo s), RenderComplete, DrawCmdBuffer (currentBuffer s))]"
proof -
  have lights: "[0..<NUM_LIGHTS] = [0, 1, 2]"
    by (simp add: NUM_LIGHTS_def upt_rec)
  have final: "NUM_LIGHTS - Suc 0 = 2"
    by (simp add: NUM_LIGHTS_def)
  from assms have "\<exists>s0 s1 s2 s3.
      submit (s\<lparr>submitInfo := (submitInfo s)
          \<lparr>pWaitSemaphores := PresentComplete, pSignalSemaphores := ShadowmapSemaphore 0,
           commandBufferCount := 1, pCommandBuffers := ShadowmapCommandBuffer 0\<rparr>\<rparr>) = Inr s0
    \<and> submit (s0\<lparr>submitInfo := (submitInfo s0)
          \<lparr>pWaitSemaphores := ShadowmapSemaphore 0, pSignalSemaphores := ShadowmapSemaphore 1,
           commandBufferCount := 1, pCommandBuffers := ShadowmapCommandBuffer 1\<rparr>\<rparr>) = Inr s1
    \<and> submit (s1\<lparr>submitInfo := (submitInfo s1)
          \<lparr>pWaitSemaphores := ShadowmapSemaphore 1, pSignalSemaphores := ShadowmapSemaphore 2,
           commandBufferCount := 1, pCommandBuffers := ShadowmapCommandBuffer 2\<rparr>\<rparr>) = Inr s2
    \<and> submit (s2\<lparr>submitInfo := (submitInfo s2)
          \<lparr>pSignalSemaphores := DeferredSemaphore, pWaitSemaphores := ShadowmapSemaphore 2,
           pCommandBuffers := DeferredCmdBuffer\<rparr>\<rparr>) = Inr s3
    \<and> submit (s3\<lparr>submitInfo := (submitInfo s3)
          \<lparr>pWaitSemaphores := DeferredSemaphore, pSignalSemaphores := RenderComplete,
           pCommandBuffers := DrawCmdBuffer (currentBuffer s3)\<rparr>\<rparr>) = Inr s'"
    by (simp add: draw_def lights final and_then_Inr) blast
  then obtain s0 s1 s2 s3 where
    a0: "submit (s\<lparr>submitInfo := (submitInfo s)
          \<lparr>pWaitSemaphores := PresentComplete, pSignalSemaphores := ShadowmapSemaphore 0,
           commandBufferCount := 1, pCommandBuffers := ShadowmapCommandBuffer 0\<rparr>\<rparr>) = Inr s0"
    and a1: "submit (s0\<lparr>submitInfo := (submitInfo s0)
          \<lparr>pWaitSemaphores := ShadowmapSemaphore 0, pSignalSemaphores := ShadowmapSemaphore 1,
           commandBufferCount := 1, pCommandBuffers := ShadowmapCommandBuffer 1\<rparr>\<rparr>) = Inr s1"
    and a2: "submit (s1\<lparr>submitInfo := (submitInfo s1)
          \<lparr>pWaitSemaphores := ShadowmapSemaphore 1, pSignalSemaphores := ShadowmapSemaphore 2,
           commandBufferCount := 1, pCommandBuffers := ShadowmapCommandBuffer 2\<rparr>\<rparr>) = Inr s2"
    and a3: "submit (s2\<lparr>submitInfo := (submitInfo s2)
          \<lparr>pSignalSemaphores := DeferredSemaphore, pWaitSemaphores := ShadowmapSemaphore 2,
           pCommandBuffers := DeferredCmdBuffer\<rparr>\<rparr>) = Inr s3"
    and a4: "submit (s3\<lparr>submitInfo := (submitInfo s3)
          \<lparr>pWaitSemaphores := DeferredSemaphore, pSignalSemaphores := RenderComplete,
           pCommandBuffers := DrawCmdBuffer (currentBuffer s3)\<rparr>\<rparr>) = Inr s'"
    by blast
  note f0 = submit_Inr [OF a0] and f1 = submit_Inr [OF a1] and f2 = submit_Inr [OF a2]
    and f3 = submit_Inr [OF a3] and f4 = submit_Inr [OF a4]
  from f0 f1 f2 f3 f4 show ?thesis
    by (simp add: submissions_of_def link_def)
qed


lemma submit_completes:
  "driver_results (queue s) = [] \<Longrightarrow>
     \<exists>s'. submit s = Inr s' \<and> driver_results (queue s') = []"
  by (simp add: submit_def and_then_def VK_CHECK_RESULT_def vkQueueSubmit_def next_result_def)

lemma draw_shadowmaps_completes:
  "driver_results (queue s) = [] \<Longrightarrow>
     \<exists>s'. draw_shadowmaps lights s = Inr s' \<and> driver_results (queue s') = []"
proof (induction lights arbitrary: s)
  case Nil
  then show ?case by simp
next
  case (Cons i rest)
  let ?s = "s\<lparr>submitInfo := (submitInfo s)
          \<lparr>pWaitSemaphores := (if i = 0 then PresentComplete else ShadowmapSemaphore (i - 1)),
           pSignalSemaphores := ShadowmapSemaphore i,
           commandBufferCount := 1,
           pCommandBuffers := ShadowmapCommandBuffer i\<rparr>\<rparr>"
  from Cons.prems have "driver_results (queue ?s) = []" by simp
  from submit_completes [OF this] obtain s1 where
    s1: "submit ?s = Inr s1" "driver_results (queue s1) = []" by blast
  from Cons.IH [OF s1(2)] s1(1) show ?case
    by (simp add: and_then_def)
qed

lemma draw_completes:
  assumes "driver_results (queue s) = []"
  shows "\<exists>s'. draw s = Inr s'"
proof -
  from draw_shadowmaps_completes [OF assms] obtain s1 where
    s1: "draw_shadowmaps [0..<NUM_LIGHTS] s = Inr s1" "driver_results (queue s1) = []" by blast
  let ?g = "s1\<lparr>submitInfo := (submitInfo s1)
          \<lparr>pSignalSemaphores := DeferredSemaphore,
           pWaitSemaphores := ShadowmapSemaphore (NUM_LIGHTS - 1),
           pCommandBuffers := DeferredCmdBuffer\<rparr>\<rparr>"
  from s1(2) have "driver_results (queue ?g) = []" by simp
  from submit_completes [OF this] obtain s2 where
    s2: "submit ?g = Inr s2" "driver_results (queue s2) = []" by blast
  let ?c = "s2\<lparr>submitInfo := (submitInfo s2)
          \<lparr>pWaitSemaphores := DeferredSemaphore,
           pSignalSemaphores := RenderComplete,
           pCommandBuffers := DrawCmdBuffer (currentBuffer s2)\<rparr>\<rparr>"
  from s2(2) have "driver_results (queue ?c) = []" by simp
  from submit_completes [OF this] obtain s3 where "submit ?c = Inr s3" by blast
  with s1(1) s2(1) show ?thesis
    by (simp add: draw_def and_then_def)
qed

text \<open>
  C1. In every call of \<open>draw\<close> that returns, the submissions it adds to the queue form one
  chain: shadow submission 0 waits on the present-complete semaphore; shadow submission
  \<open>i\<close>, for \<open>0 < i < NUM_LIGHTS\<close>, waits on the semaphore of shadow pass \<open>i - 1\<close>; shadow
  submission \<open>i\<close> signals the semaphore of shadow pass \<open>i\<close>; the geometry submission waits
  on the semaphore of the last shadow pass and signals \<open>deferredSemaphore\<close>; the composition
  submission waits on \<open>deferredSemaphore\<close> and signals the render-complete semaphore. Each
  submission names one semaphore to wait on and one to signal: \<open>draw\<close> leaves the two
  counts as the base class set them, to 1.
\<close>

theorem draw_semaphore_chain:
  assumes "draw s = Inr s'"
    and "waitSemaphoreCount (submitInfo s) = 1"
    and "signalSemaphoreCount (submitInfo s) = 1"
  shows "submitted (queue s') = submitted (queue s) @ submissions_of s s'
       \<and> length (submissions_of s s') = NUM_LIGHTS + 2
       \<and> pWaitSemaphores (submissions_of s s' ! 0) = PresentComplete
       \<and> (\<forall>i. 0 < i \<and> i < NUM_LIGHTS \<longrightarrow>
             pWaitSemaphores (submissions_of s s' ! i) = ShadowmapSemaphore (i - 1))
       \<and> (\<forall>i < NUM_LIGHTS.
             pSignalSemaphores (submissions_of s s' ! i) = ShadowmapSemaphore i
             \<and> pCommandBuffers (submissions_of s s' ! i) = ShadowmapCommandBuffer i)
       \<and> pWaitSemaphores (submissions_of s s' ! NUM_LIGHTS) = ShadowmapSemaphore (NUM_LIGHTS - 1)
       \<and> pSignalSemaphores (submissions_of s s' ! NUM_LIGHTS) = DeferredSemaphore
       \<and> pCommandBuffers (submissions_of s s' ! NUM_LIGHTS) = DeferredCmdBuffer
       \<and> pWaitSemaphores (submissions_of s s' ! (NUM_LIGHTS + 1)) = DeferredSemaphore
       \<and> pSignalSemaphores (submissions_of s s' ! (NUM_LIGHTS + 1)) = RenderComplete
       \<and> pCommandBuffers (submissions_of s s' ! (NUM_LIGHTS + 1)) = DrawCmdBuffer (currentBuffer s)
       \<and> (\<forall>info \<in> set (submissions_of s s').
             waitSemaphoreCount info = 1 \<and> signalSemaphoreCount info = 1)"
proof -
  from draw_links [OF assms(1)] assms(2,3)
  have appended: "submitted (queue s') = submitted (queue s) @ submissions_of s s'"
    and links: "map link (submissions_of s s') =
           [(1, PresentComplete, 1, ShadowmapSemaphore 0, ShadowmapCommandBuffer 0),
            (1, ShadowmapSemaphore 0, 1, ShadowmapSemaphore 1, ShadowmapCommandBuffer 1),
            (1, ShadowmapSemaphore 1, 1, ShadowmapSemaphore 2, ShadowmapCommandBuffer 2),
            (1, ShadowmapSemaphore 2, 1, DeferredSemaphore, DeferredCmdBuffer),
            (1, DeferredSemaphore, 1, RenderComplete, DrawCmdBuffer (currentBuffer s))]"
    by simp_all
  from links obtain x0 x1 x2 x3 x4 where
    subs: "submissions_of s s' = [x0, x1, x2, x3, x4]"
    and x0: "link x0 = (1, PresentComplete, 1, ShadowmapSemaphore 0, ShadowmapCommandBuffer 0)"
    and x1: "link x1 = (1, ShadowmapSemaphore 0, 1, ShadowmapSemaphore 1, ShadowmapCommandBuffer 1)"
    and x2: "link x2 = (1, ShadowmapSemaphore 1, 1, ShadowmapSemaphore 2, ShadowmapCommandBuffer 2)"
    and x3: "link x3 = (1, ShadowmapSemaphore 2, 1, DeferredSemaphore, DeferredCmdBuffer)"
    and x4: "link x4 = (1, DeferredSemaphore, 1, RenderComplete, DrawCmdBuffer (currentBuffer s))"
    by (auto simp: map_eq_Cons_conv)
  have three: "\<And>i::nat. i < 3 \<longleftrightarrow> i = 0 \<or> i = 1 \<or> i = 2"
    by auto
  from x0 x1 x2 x3 x4 have fields:
    "length (submissions_of s s') = NUM_LIGHTS + 2"
    "pWaitSemaphores (submissions_of s s' ! 0) = PresentComplete"
    "\<forall>i. 0 < i \<and> i < NUM_LIGHTS \<longrightarrow>
             pWaitSemaphores (submissions_of s s' ! i) = ShadowmapSemaphore (i - 1)"
    "\<forall>i < NUM_LIGHTS.
             pSignalSemaphores (submissions_of s s' ! i) = ShadowmapSemaphore i
             \<and> pCommandBuffers (submissions_of s s' ! i) = ShadowmapCommandBuffer i"
    "pWaitSemaphores (submissions_of s s' ! NUM_LIGHTS) = ShadowmapSemaphore (NUM_LIGHTS - 1)"
    "pSignalSemaphores (submissions_of s s' ! NUM_LIGHTS) = DeferredSemaphore"
    "pCommandBuffers (submissions_of s s' ! NUM_LIGHTS) = DeferredCmdBuffer"
    "pWaitSemaphores (submissions_of s s' ! (NUM_LIGHTS + 1)) = DeferredSemaphore"
    "pSignalSemaphores (submissions_of s s' ! (NUM_LIGHTS + 1)) = RenderComplete"
    "pCommandBuffers (submissions_of s s' ! (NUM_LIGHTS + 1)) = DrawCmdBuffer (currentBuffer s)"
    "\<forall>info \<in> set (submissions_of s s').
             waitSemaphoreCount info = 1 \<and> signalSemaphoreCount info = 1"
    unfolding subs NUM_LIGHTS_def by (auto simp: link_def three)
  with appended show ?thesis by blast
qed

theorem draw_semaphore_chain_witness:
  "waitSemaphoreCount (submitInfo example_frame) = 1
   \<and> signalSemaphoreCount (submitInfo example_frame) = 1
   \<and> (\<exists>s'. draw example_frame = Inr s'
         \<and> length (submissions_of example_frame s') = 5
         \<and> pWaitSemaphores (submissions_of example_frame s' ! 0) = PresentComplete
         \<and> pSignalSemaphores (submissions_of example_frame s' ! 2) = ShadowmapSemaphore 2
         \<and> pWaitSemaphores (submissions_of example_frame s' ! 3) = ShadowmapSemaphore 2
         \<and> pSignalSemaphores (submissions_of example_frame s' ! 3) = DeferredSemaphore
         \<and> pWaitSemaphores (submissions_of example_frame s' ! 4) = DeferredSemaphore
         \<and> pSignalSemaphores (submissions_of example_frame s' ! 4) = RenderComplete)"
proof -
  have counts: "waitSemaphoreCount (submitInfo example_frame) = 1"
    "signalSemaphoreCount (submitInfo example_frame) = 1"
    by (simp_all add: example_frame_def)
  have "driver_results (queue example_frame) = []"
    by (simp add: example_frame_def)
  from draw_completes [OF this] obtain s' where ran: "draw example_frame = Inr s'" ..
  from draw_semaphore_chain [OF ran counts] ran counts show ?thesis
    by (auto simp: NUM_LIGHTS_def)
qed

section \<open>Preparing the shadow passes: properties\<close>

lemma next_result_created: "created_objects (snd (next_result d)) = created_objects d"
  by (simp add: next_result_def split: list.splits)

lemma vkCreate_render_passes:
  assumes "VK_CHECK_RESULT (vkCreate kind d) = Inr (h, d')"
  shows "render_passes_created d' = render_passes_created d + (if kind = KRenderPass then 1 else 0)"
proof -
  obtain res d1 where nr: "next_result d = (res, d1)" by (cases "next_result d")
  then have same: "created_objects d1 = created_objects d"
    using next_result_created [of d] by simp
  from assms nr have "res = VK_SUCCESS"
    and "d' = d1\<lparr>created_objects := created_objects d1 @ [(kind, Suc (length (created_objects d1)))]\<rparr>"
    by (auto simp: VK_CHECK_RESULT_def vkCreate_def split: if_splits)
  with same show ?thesis
    by (simp add: render_passes_created_def)
qed

lemma vkCall_render_passes:
  assumes "VK_CHECK_RESULT (vkCall d) = Inr d'"
  shows "render_passes_created d' = render_passes_created d"
  using assms next_result_created [of d]
  by (auto simp: VK_CHECK_RESULT_def vkCall_def render_passes_created_def split: if_splits)

lemma device_update_pass [simp]: "device (update_pass i f s) = device s"
  by (simp add: update_pass_def)

lemma prepareShadowmapRenderpass_loop_count:
  "prepareShadowmapRenderpass_loop lights s = Inr s' \<Longrightarrow>
     render_passes_created (device s') = render_passes_created (device s) + length lights"
proof (induction lights arbitrary: s)
  case Nil
  then show ?case by simp
next
  case (Cons i rest)
  from Cons.prems obtain pass d where
    made: "VK_CHECK_RESULT (vkCreate KRenderPass (device s)) = Inr (pass, d)"
    and rest: "prepareShadowmapRenderpass_loop rest
         (update_pass i (\<lambda>p. p\<lparr>renderPass := pass\<rparr>) (s\<lparr>device := d\<rparr>)) = Inr s'"
    by (auto simp: and_then_def split: sum.splits)
  from Cons.IH [OF rest] vkCreate_render_passes [OF made] show ?case by simp
qed

lemma prepareShadowmapFramebuffer_loop_count:
  "prepareShadowmapFramebuffer_loop lights s = Inr s' \<Longrightarrow>
     render_passes_created (device s') = render_passes_created (device s) + length lights * NUM_LIGHTS"
proof (induction lights arbitrary: s)
  case Nil
  then show ?case by simp
next
  case (Cons i rest)
  from Cons.prems obtain img d1 memory d2 d3 v d4 sampler d5 s6 fb d7 where
    c1: "VK_CHECK_RESULT (vkCreate KImage (device s)) = Inr (img, d1)"
    and c2: "VK_CHECK_RESULT (vkCreate KDeviceMemory d1) = Inr (memory, d2)"
    and c3: "VK_CHECK_RESULT (vkCall d2) = Inr d3"
    and c4: "VK_CHECK_RESULT (vkCreate KImageView d3) = Inr (v, d4)"
    and c5: "VK_CHECK_RESULT (vkCreate KSampler d4) = Inr (sampler, d5)"
    and c6: "prepareShadowmapRenderpass
         (update_pass i
            (\<lambda>p. p\<lparr>width := SHADOWMAP_DIM, height := SHADOWMAP_DIM,
                    depth := \<lparr>image = img, mem = memory, view = v\<rparr>,
                    depthSampler := sampler\<rparr>)
            (s\<lparr>device := d5\<rparr>)) = Inr s6"
    and c7: "VK_CHECK_RESULT (vkCreate KFramebuffer (device s6)) = Inr (fb, d7)"
    and rest: "prepareShadowmapFramebuffer_loop rest
         (update_pass i (\<lambda>p. p\<lparr>frameBuffer := fb\<rparr>) (s6\<lparr>device := d7\<rparr>)) = Inr s'"
    by (auto simp: and_then_def split: sum.splits)
  from c6 have "render_passes_created (device s6) = render_passes_created d5 + NUM_LIGHTS"
    using prepareShadowmapRenderpass_loop_count [of "[0..<NUM_LIGHTS]"]
    by (simp add: prepareShadowmapRenderpass_def)
  with Cons.IH [OF rest] vkCreate_render_passes [OF c1] vkCreate_render_passes [OF c2]
    vkCall_render_passes [OF c3] vkCreate_render_passes [OF c4] vkCreate_render_passes [OF c5]
    vkCreate_render_passes [OF c7]
  show ?case by simp
qed

lemma prepareShadowmapFramebuffer_count:
  "prepareShadowmapFramebuffer s = Inr s' \<Longrightarrow>
     render_passes_created (device s') = render_passes_created (device s) + NUM_LIGHTS * NUM_LIGHTS"
  using prepareShadowmapFramebuffer_loop_count [of "[0..<NUM_LIGHTS]" s s']
  by (simp add: prepareShadowmapFramebuffer_def)

text \<open>
  C9. The claim is one render-pass creation per light, \<open>NUM_LIGHTS\<close> in all. The code
  calls \<open>prepareShadowmapRenderpass\<close>, which creates a render pass for every light, once
  per light from inside the loop of \<open>prepareShadowmapFramebuffer\<close>: on a fresh renderer
  \<open>NUM_LIGHTS * NUM_LIGHTS = 9\<close> render passes are created, and the passes keep the last
  three handles; the six created before are overwritten.
\<close>

theorem shadow_render_passes_created:
  "map_sum id (\<lambda>s. (render_passes_created (device s), map renderPass (shadowmapPass s)))
     (prepareShadowmapFramebuffer fresh_shadow_state) = Inr (NUM_LIGHTS * NUM_LIGHTS, [21, 22, 23])"
  by code_simp

section \<open>Scene load: properties\<close>

text \<open>
  C6. When the import fails, \<open>load\<close> prints the error line, which holds the file name and
  the importer's error string, and returns; the private \<open>aScene\<close> pointer is null and nothing
  else has changed. On a scene fresh from its constructor the materials and meshes are
  still empty, the global buffers, the descriptor pool and the registries untouched, and
  no object has been created on the device.
\<close>

theorem load_import_failure:
  "load filename (Inl error_string) w =
     Inr (w\<lparr>scene := (scene w)\<lparr>aScene := None\<rparr>,
            printed := printed w @
              [''Error parsing '' @ [CHR 0x27] @ filename @ [CHR 0x27] @ '': ''
                 @ [CHR 0x27] @ error_string @ [CHR 0x27, CHR 0x0A]]\<rparr>)
   \<and> (\<exists>w'. load filename (Inl error_string) (new_world path) = Inr w'
          \<and> materials (scene w') = [] \<and> meshes (scene w') = []
          \<and> buffer (globalVertexBuffer (scene w')) = VK_NULL_HANDLE
          \<and> buffer (globalIndexBuffer (scene w')) = VK_NULL_HANDLE
          \<and> globalVertices (scene w') = [] \<and> globalIndices (scene w') = []
          \<and> descriptorPool (scene w') = VK_NULL_HANDLE
          \<and> created_objects (gpu w') = []
          \<and> textures w' = [] \<and> loaded_files w' = [])"
  by (simp add: load_def new_world_def new_scene_def)

section \<open>Material import: properties\<close>


lemma tex_step_present: "tex_step w w' \<Longrightarrow> present (textures w) k \<Longrightarrow> present (textures w') k"
  by (simp add: tex_step_def present_def)
















section \<open>Mesh consolidation: properties\<close>

lemma shifted_Nil [simp]: "shifted offset [] = []"
  by (simp add: shifted_def)

lemma shifted_Cons [simp]:
  "shifted offset ((i0, i1, i2) # faces) = [i0 + offset, i1 + offset, i2 + offset] @ shifted offset faces"
  by (simp add: shifted_def)

lemma length_shifted [simp]: "length (shifted offset faces) = 3 * length faces"
  by (induction faces) (auto simp: shifted_def)








lemma length_index_bases [simp]: "length (index_bases base model) = length model"
  by (induction model arbitrary: base) simp_all

lemma faces_before_0 [simp]: "faces_before model 0 = 0"
  by (simp add: faces_before_def)

lemma faces_before_Cons_Suc [simp]:
  "faces_before (m # rest) (Suc k) = length (mFaces m) + faces_before rest k"
  by (simp add: faces_before_def)

lemma vertices_before_0 [simp]: "vertices_before model 0 = 0"
  by (simp add: vertices_before_def)

lemma vertices_before_Cons_Suc [simp]:
  "vertices_before (m # rest) (Suc k) = length (mRows m) + vertices_before rest k"
  by (simp add: vertices_before_def)

lemma total_faces_Cons [simp]: "total_faces (m # rest) = length (mFaces m) + total_faces rest"
  by (simp add: total_faces_def)

lemma total_faces_Nil [simp]: "total_faces [] = 0"
  by (simp add: total_faces_def)

lemma total_vertices_Cons [simp]: "total_vertices (m # rest) = length (mRows m) + total_vertices rest"
  by (simp add: total_vertices_def)

lemma total_vertices_Nil [simp]: "total_vertices [] = 0"
  by (simp add: total_vertices_def)







lemma length_global_indices_from [simp]:
  "length (global_indices_from count model) = 3 * total_faces model"
  by (induction model arbitrary: count) simp_all









lemma indices_size: "3 * n < 2 ^ 32 \<Longrightarrow> unat (of_nat n * 3 :: 32 word) = 3 * n"
  by (simp add: unat_word_ariths unat_of_nat)












section \<open>What the shadow passes and the deferred pass record\<close>

lemma shadow_draws_Inr:
  "shadow_draws mats ms cmds = Inr cmds' \<Longrightarrow>
     cmds' = cmds @ map draw_mesh (filter (\<lambda>mesh. hasAlpha (mats ! material mesh) = False) ms)
     \<and> (\<forall>mesh \<in> set ms. material mesh < length mats)"
proof (induction ms arbitrary: cmds)
  case Nil
  then show ?case by simp
next
  case (Cons mesh rest)
  from Cons.prems Cons.IH [of cmds] Cons.IH [of "cmds @ [draw_mesh mesh]"]
  show ?case by (auto split: if_splits)
qed

lemma deferred_draws_Inr:
  "deferred_draws alpha layout mats ms cmds = Inr cmds' \<Longrightarrow>
     cmds' = cmds @ concat (map (bind_and_draw layout)
                (filter (\<lambda>mesh. hasAlpha (mats ! material mesh) = alpha) ms))
     \<and> (\<forall>mesh \<in> set ms. material mesh < length mats)"
proof (induction ms arbitrary: cmds)
  case Nil
  then show ?case by simp
next
  case (Cons mesh rest)
  from Cons.prems Cons.IH [of cmds]
    Cons.IH [of "cmds @ [CmdBindDescriptorSets layout (descriptorSet mesh), draw_mesh mesh]"]
  show ?case by (auto simp: bind_and_draw_def split: if_splits)
qed

lemma lookup_after_subscript:
  "fst (subscript (snd (subscript r k)) k') = fst (subscript r k')"
  by (auto simp: fst_subscript map_of_subscript split: option.splits)

lemma lookup_after_get [simp]:
  "fst (get (snd (get r k)) k') = fst (get r k')"
  "fst (get (snd (getPtr r k)) k') = fst (get r k')"
  "fst (getPtr (snd (get r k)) k') = fst (getPtr r k')"
  "fst (getPtr (snd (getPtr r k)) k') = fst (getPtr r k')"
  by (simp_all add: get_def getPtr_def lookup_after_subscript)

lemma same_setup_refl [simp]: "same_setup r r"
  by (simp add: same_setup_def)

lemma same_setup_trans: "same_setup r r1 \<Longrightarrow> same_setup r1 r2 \<Longrightarrow> same_setup r r2"
  by (simp add: same_setup_def)

lemma create_checked_Inr:
  "create_checked kind r = Inr (h, r') \<Longrightarrow> same_setup r r' \<and> recorded r' = recorded r"
  by (auto simp: create_checked_def and_then_Inr same_setup_def)

lemma call_checked_Inr:
  "call_checked r = Inr r' \<Longrightarrow> same_setup r r' \<and> recorded r' = recorded r"
  by (auto simp: call_checked_def and_then_Inr same_setup_def)

lemma update_pass_keeps:
  assumes "\<And>p. renderPass (f p) = renderPass p" and "\<And>p. frameBuffer (f p) = frameBuffer p"
  shows "renderPass (shadowmapPass (update_pass i f s) ! j) = renderPass (shadowmapPass s ! j)
       \<and> frameBuffer (shadowmapPass (update_pass i f s) ! j) = frameBuffer (shadowmapPass s ! j)"
proof (cases "i < length (shadowmapPass s)")
  case True
  with assms show ?thesis
    by (cases "i = j") (simp_all add: update_pass_def)
next
  case False
  then have "(shadowmapPass s)[i := f (shadowmapPass s ! i)] = shadowmapPass s"
    by (simp add: list_update_beyond)
  then show ?thesis by (simp add: update_pass_def)
qed

lemma set_command_buffer_setup:
  "same_setup r (r\<lparr>shadows := update_pass i (\<lambda>p. p\<lparr>commandBuffer := h\<rparr>) (shadows r)\<rparr>)"
  "same_setup r (r\<lparr>shadows := update_pass i (\<lambda>p. p\<lparr>semaphore := h\<rparr>) (shadows r)\<rparr>)"
  by (simp_all add: same_setup_def update_pass_keeps)


lemma ensure_command_buffer_Inr:
  "ensure_command_buffer i r = Inr r' \<Longrightarrow> same_setup r r' \<and> recorded r' = recorded r"
  by (auto simp: ensure_command_buffer_def and_then_Inr split: if_splits
      dest!: create_checked_Inr intro: same_setup_trans [OF _ set_command_buffer_setup(1)])

lemma ensure_semaphore_Inr:
  "ensure_semaphore i r = Inr r' \<Longrightarrow> same_setup r r' \<and> recorded r' = recorded r"
  by (auto simp: ensure_semaphore_def and_then_Inr split: if_splits
      dest!: create_checked_Inr intro: same_setup_trans [OF _ set_command_buffer_setup(2)])


lemma same_setup_registries:
  "same_setup r (r\<lparr>pipelineLayouts := snd (get (pipelineLayouts r) k1),
                    graphicsPipelines := snd (get (graphicsPipelines r) k2),
                    descriptorSets := snd (getPtr (descriptorSets r) k3)\<rparr>)"
  by (simp add: same_setup_def)

lemma record_shadowmap_commands_Inr:
  assumes "record_shadowmap_commands i r = Inr r'"
  shows "same_setup r r'
       \<and> recorded r' = (recorded r)(ShadowmapCommandBuffer i := shadowmap_commands r i)"
proof -
  let ?r = "r\<lparr>pipelineLayouts := snd (get (pipelineLayouts r) ''shadowmap''),
                graphicsPipelines := snd (get (graphicsPipelines r) ''shadowmap''),
                descriptorSets := snd (getPtr (descriptorSets r) ''shadowmap'')\<rparr>"
  from assms obtain cmds r4 where
    draws: "shadow_draws (materials (loadedScene r)) (meshes (loadedScene r))
           [CmdSetViewport, CmdSetScissor, CmdSetDepthBias,
            CmdBeginRenderPass (renderPass (shadowmapPass (shadows r) ! i))
              (frameBuffer (shadowmapPass (shadows r) ! i)),
            CmdBindPipeline (fst (get (graphicsPipelines r) ''shadowmap'')),
            CmdBindDescriptorSets (fst (get (pipelineLayouts r) ''shadowmap''))
              (fst (getPtr (descriptorSets r) ''shadowmap'')),
            CmdPushConstants (fst (get (pipelineLayouts r) ''shadowmap'')) 0 4 (int i),
            CmdBindVertexBuffers (buffer (globalVertexBuffer (loadedScene r))),
            CmdBindIndexBuffer (buffer (globalIndexBuffer (loadedScene r)))] = Inr cmds"
    and ended: "call_checked ?r = Inr r4"
    and r': "r' = r4\<lparr>recorded := (recorded r4)(ShadowmapCommandBuffer i := cmds @ [CmdEndRenderPass])\<rparr>"
    by (auto simp: record_shadowmap_commands_def and_then_Inr case_prod_beta)
  from call_checked_Inr [OF ended] have r4: "same_setup ?r r4" "recorded r4 = recorded r"
    by simp_all
  from same_setup_trans [OF same_setup_registries r4(1)] have "same_setup r r4" .
  then have kept: "same_setup r r'"
    by (simp add: r' same_setup_def)
  from shadow_draws_Inr [OF draws]
  have "cmds @ [CmdEndRenderPass] = shadowmap_commands r i"
    by (simp add: shadowmap_commands_def meshes_with_alpha_def)
  with r4(2) have "recorded r' = (recorded r)(ShadowmapCommandBuffer i := shadowmap_commands r i)"
    by (simp add: r')
  with kept show ?thesis by simp
qed

lemma shadowmap_commands_cong:
  "same_setup r r' \<Longrightarrow> shadowmap_commands r' i = shadowmap_commands r i"
  by (simp add: same_setup_def shadowmap_commands_def)

lemma record_shadowmap_Inr:
  assumes "record_shadowmap i r = Inr r'"
  shows "same_setup r r'
       \<and> recorded r' = (recorded r)(ShadowmapCommandBuffer i := shadowmap_commands r i)"
proof -
  from assms obtain r1 r2 r3 where
    s1: "ensure_command_buffer i r = Inr r1"
    and s2: "ensure_semaphore i r1 = Inr r2"
    and s3: "call_checked r2 = Inr r3"
    and s4: "record_shadowmap_commands i r3 = Inr r'"
    by (auto simp: record_shadowmap_def and_then_Inr)
  note f1 = ensure_command_buffer_Inr [OF s1] and f2 = ensure_semaphore_Inr [OF s2]
    and f3 = call_checked_Inr [OF s3] and f4 = record_shadowmap_commands_Inr [OF s4]
  from f1 f2 f3 have before: "same_setup r r3" "recorded r3 = recorded r"
    by (auto intro: same_setup_trans)
  with f4 have "same_setup r r'"
    by (auto intro: same_setup_trans)
  moreover from f4 before have
    "recorded r' = (recorded r)(ShadowmapCommandBuffer i := shadowmap_commands r i)"
    by (simp add: shadowmap_commands_cong)
  ultimately show ?thesis by simp
qed

lemma buildShadowmapCommandBuffer_loop_Inr:
  "buildShadowmapCommandBuffer_loop lights r = Inr r' \<Longrightarrow>
     same_setup r r'
     \<and> (\<forall>i \<in> set lights. recorded r' (ShadowmapCommandBuffer i) = shadowmap_commands r i)
     \<and> (\<forall>c. c \<notin> ShadowmapCommandBuffer ` set lights \<longrightarrow> recorded r' c = recorded r c)"
proof (induction lights arbitrary: r)
  case Nil
  then show ?case by simp
next
  case (Cons i rest)
  from Cons.prems obtain r1 where
    one: "record_shadowmap i r = Inr r1"
    and more: "buildShadowmapCommandBuffer_loop rest r1 = Inr r'"
    by (auto simp: and_then_Inr)
  note here = record_shadowmap_Inr [OF one]
  note IH = Cons.IH [OF more]
  from here IH have kept: "same_setup r r'"
    by (auto intro: same_setup_trans)
  have each: "recorded r' (ShadowmapCommandBuffer j) = shadowmap_commands r j"
    if "j \<in> set (i # rest)" for j
  proof (cases "j \<in> set rest")
    case True
    with IH have "recorded r' (ShadowmapCommandBuffer j) = shadowmap_commands r1 j" by simp
    with here show ?thesis by (simp add: shadowmap_commands_cong)
  next
    case False
    with that have "j = i" by simp
    from False have "ShadowmapCommandBuffer j \<notin> ShadowmapCommandBuffer ` set rest" by auto
    with IH have "recorded r' (ShadowmapCommandBuffer j) = recorded r1 (ShadowmapCommandBuffer j)"
      by simp
    with here \<open>j = i\<close> show ?thesis by simp
  qed
  have others: "recorded r' c = recorded r c"
    if "c \<notin> ShadowmapCommandBuffer ` set (i # rest)" for c
  proof -
    from that have "c \<notin> ShadowmapCommandBuffer ` set rest" "c \<noteq> ShadowmapCommandBuffer i"
      by auto
    with IH here show ?thesis by simp
  qed
  from kept each others show ?case by blast
qed


lemma filter_draws:
  "filter is_draw (map draw_mesh ms) = map draw_mesh ms"
  "List.map_filter push_constant (map draw_mesh ms) = []"
  by (induction ms) (simp_all add: draw_mesh_def List.map_filter_simps)

lemma before_draws_shadowmap:
  "List.map_filter push_constant (before_draws (shadowmap_commands r i)) = [int i]"
  by (cases "meshes_with_alpha False (loadedScene r)")
     (simp_all add: before_draws_def shadowmap_commands_def draw_mesh_def List.map_filter_simps)

text \<open>
  After \<open>buildShadowmapCommandBuffer\<close> has returned, the command buffer of every light
  \<open>i\<close> holds the commands written out below: after the set-up commands, among them the push
  constant with the value \<open>i\<close>, one \<open>vkCmdDrawIndexed\<close> for each mesh of the scene whose
  material has \<open>hasAlpha\<close> false, in scene order, with the \<open>indexCount\<close> of the mesh as first
  argument, 0 as \<open>firstIndex\<close> and the \<open>indexBase\<close> of the mesh as \<open>vertexOffset\<close>, and then the
  end of the render pass. The only value pushed before the first draw is \<open>i\<close>, with which
  the vertex shader selects \<open>depthMVP[i]\<close>.
\<close>

lemma shadowmap_buffer_contents:
  assumes "buildShadowmapCommandBuffer r = Inr r'"
  shows "\<forall>i < NUM_LIGHTS.
           recorded r' (ShadowmapCommandBuffer i) =
             [CmdSetViewport, CmdSetScissor, CmdSetDepthBias,
              CmdBeginRenderPass (renderPass (shadowmapPass (shadows r) ! i))
                (frameBuffer (shadowmapPass (shadows r) ! i)),
              CmdBindPipeline (fst (get (graphicsPipelines r) ''shadowmap'')),
              CmdBindDescriptorSets (fst (get (pipelineLayouts r) ''shadowmap''))
                (fst (getPtr (descriptorSets r) ''shadowmap'')),
              CmdPushConstants (fst (get (pipelineLayouts r) ''shadowmap'')) 0 4 (int i),
              CmdBindVertexBuffers (buffer (globalVertexBuffer (loadedScene r))),
              CmdBindIndexBuffer (buffer (globalIndexBuffer (loadedScene r)))]
             @ map (\<lambda>mesh. CmdDrawIndexed (indexCount mesh) 1 0 (indexBase mesh) 0)
                 (filter (\<lambda>mesh. \<not> hasAlpha (materials (loadedScene r) ! material mesh))
                    (meshes (loadedScene r)))
             @ [CmdEndRenderPass]
         \<and> filter is_draw (recorded r' (ShadowmapCommandBuffer i)) =
             map (\<lambda>mesh. CmdDrawIndexed (indexCount mesh) 1 0 (indexBase mesh) 0)
               (filter (\<lambda>mesh. \<not> hasAlpha (materials (loadedScene r) ! material mesh))
                  (meshes (loadedScene r)))
         \<and> map (selected_depthMVP depthMVP)
              (List.map_filter push_constant (before_draws (recorded r' (ShadowmapCommandBuffer i))))
             = [depthMVP ! i]"
proof (intro allI impI)
  fix i assume "i < NUM_LIGHTS"
  then have "i \<in> set [0..<NUM_LIGHTS]" by simp
  with buildShadowmapCommandBuffer_loop_Inr [of "[0..<NUM_LIGHTS]" r r'] assms
  have rec: "recorded r' (ShadowmapCommandBuffer i) = shadowmap_commands r i"
    by (simp add: buildShadowmapCommandBuffer_def)
  have whole: "shadowmap_commands r i =
             [CmdSetViewport, CmdSetScissor, CmdSetDepthBias,
              CmdBeginRenderPass (renderPass (shadowmapPass (shadows r) ! i))
                (frameBuffer (shadowmapPass (shadows r) ! i)),
              CmdBindPipeline (fst (get (graphicsPipelines r) ''shadowmap'')),
              CmdBindDescriptorSets (fst (get (pipelineLayouts r) ''shadowmap''))
                (fst (getPtr (descriptorSets r) ''shadowmap'')),
              CmdPushConstants (fst (get (pipelineLayouts r) ''shadowmap'')) 0 4 (int i),
              CmdBindVertexBuffers (buffer (globalVertexBuffer (loadedScene r))),
              CmdBindIndexBuffer (buffer (globalIndexBuffer (loadedScene r)))]
             @ map (\<lambda>mesh. CmdDrawIndexed (indexCount mesh) 1 0 (indexBase mesh) 0)
                 (filter (\<lambda>mesh. \<not> hasAlpha (materials (loadedScene r) ! material mesh))
                    (meshes (loadedScene r)))
             @ [CmdEndRenderPass]"
    by (simp add: shadowmap_commands_def meshes_with_alpha_def draw_mesh_def)
  have "filter is_draw (shadowmap_commands r i) = map draw_mesh (meshes_with_alpha False (loadedScene r))"
    by (simp add: shadowmap_commands_def filter_draws)
  then have draws: "filter is_draw (shadowmap_commands r i) =
             map (\<lambda>mesh. CmdDrawIndexed (indexCount mesh) 1 0 (indexBase mesh) 0)
               (filter (\<lambda>mesh. \<not> hasAlpha (materials (loadedScene r) ! material mesh))
                  (meshes (loadedScene r)))"
    by (simp add: meshes_with_alpha_def draw_mesh_def)
  have pushed: "map (selected_depthMVP depthMVP)
              (List.map_filter push_constant (before_draws (shadowmap_commands r i)))
             = [depthMVP ! i]"
    by (simp add: before_draws_shadowmap selected_depthMVP_def)
  from whole draws pushed show "recorded r' (ShadowmapCommandBuffer i) =
             [CmdSetViewport, CmdSetScissor, CmdSetDepthBias,
              CmdBeginRenderPass (renderPass (shadowmapPass (shadows r) ! i))
                (frameBuffer (shadowmapPass (shadows r) ! i)),
              CmdBindPipeline (fst (get (graphicsPipelines r) ''shadowmap'')),
              CmdBindDescriptorSets (fst (get (pipelineLayouts r) ''shadowmap''))
                (fst (getPtr (descriptorSets r) ''shadowmap'')),
              CmdPushConstants (fst (get (pipelineLayouts r) ''shadowmap'')) 0 4 (int i),
              CmdBindVertexBuffers (buffer (globalVertexBuffer (loadedScene r))),
              CmdBindIndexBuffer (buffer (globalIndexBuffer (loadedScene r)))]
             @ map (\<lambda>mesh. CmdDrawIndexed (indexCount mesh) 1 0 (indexBase mesh) 0)
                 (filter (\<lambda>mesh. \<not> hasAlpha (materials (loadedScene r) ! material mesh))
                    (meshes (loadedScene r)))
             @ [CmdEndRenderPass]
         \<and> filter is_draw (recorded r' (ShadowmapCommandBuffer i)) =
             map (\<lambda>mesh. CmdDrawIndexed (indexCount mesh) 1 0 (indexBase mesh) 0)
               (filter (\<lambda>mesh. \<not> hasAlpha (materials (loadedScene r) ! material mesh))
                  (meshes (loadedScene r)))
         \<and> map (selected_depthMVP depthMVP)
              (List.map_filter push_constant (before_draws (recorded r' (ShadowmapCommandBuffer i))))
             = [depthMVP ! i]"
    unfolding rec by blast
qed

text \<open>
  C4. The draws that the shadow pass records do not read the index ranges of the meshes.
  For the example model (a triangle, a quad and a triangle: ten vertices and twelve
  indices), loaded by \<open>loadMeshes\<close> and recorded by \<open>buildShadowmapCommandBuffer\<close> with every
  material opaque, the buffer of light 0 holds one draw per mesh, each with the
  \<open>indexCount\<close> of the mesh, \<open>firstIndex\<close> 0 and the \<open>indexBase\<close> of the mesh as \<open>vertexOffset\<close>.
  The ranges of the global index list that start at \<open>indexBase\<close> hold the vertices
  0 1 2, 3 4 5 5 6 3 and 7 8 9 of the three meshes; the draws fetch 0 1 2, 3 4 5 6 7 8 and
  9 10 11: the first \<open>indexCount\<close> entries of the list with \<open>indexBase\<close> added, for the third
  mesh two vertices past the ten of the global vertex list.
\<close>

theorem shadow_draws_miss_index_ranges:
  "map_sum id
     (\<lambda>r. (filter is_draw (recorded r (ShadowmapCommandBuffer 0)),
           map (fetched_vertices (globalIndices (loadedScene r)))
             (filter is_draw (recorded r (ShadowmapCommandBuffer 0))),
           map (index_range (globalIndices (loadedScene r))) (meshes (loadedScene r)),
           length (globalVertices (loadedScene r))))
     recorded_example
   = Inr ([CmdDrawIndexed 3 1 0 0 0, CmdDrawIndexed 6 1 0 3 0, CmdDrawIndexed 3 1 0 9 0],
          [[0, 1, 2], [3, 4, 5, 6, 7, 8], [9, 10, 11]],
          [[0, 1, 2], [3, 4, 5, 5, 6, 3], [7, 8, 9]],
          10)"
  by code_simp

lemma ensure_deferred_command_buffer_Inr:
  "ensure_deferred_command_buffer rebuild r = Inr r' \<Longrightarrow> same_setup r r' \<and> recorded r' = recorded r"
  by (auto simp: ensure_deferred_command_buffer_def and_then_Inr same_setup_def split: if_splits
      dest!: create_checked_Inr)

lemma create_deferred_semaphore_Inr:
  "create_deferred_semaphore r = Inr r' \<Longrightarrow> same_setup r r' \<and> recorded r' = recorded r"
  by (auto simp: create_deferred_semaphore_def and_then_Inr same_setup_def
      dest!: create_checked_Inr)

lemma same_setup_deferred_registries:
  "same_setup r
     (r\<lparr>pipelineLayouts := snd (get (pipelineLayouts r) k1),
        graphicsPipelines :=
          snd (get (snd (get (snd (get (graphicsPipelines r) k2)) k3)) k4),
        descriptorSets := snd (getPtr (descriptorSets r) k5)\<rparr>)"
  by (simp add: same_setup_def)

lemma record_deferred_commands_Inr:
  assumes "record_deferred_commands r = Inr r'"
  shows "same_setup r r'
       \<and> recorded r' = (recorded r)(DeferredCmdBuffer := deferred_commands r)"
proof -
  let ?r = "r\<lparr>pipelineLayouts := snd (get (pipelineLayouts r) ''skysphere''),
                graphicsPipelines :=
                  snd (get (snd (get (snd (get (graphicsPipelines r) ''skysphere''))
                                   ''scene.solid'')) ''scene.blend''),
                descriptorSets := snd (getPtr (descriptorSets r) ''skysphere'')\<rparr>"
  from assms obtain cmds1 cmds2 r4 where
    opaque: "deferred_draws False (pipelineLayout (loadedScene r))
           (materials (loadedScene r)) (meshes (loadedScene r))
           [CmdBeginRenderPass (offscreen_renderPass (offscreen r)) (offscreen_frameBuffer (offscreen r)),
            CmdSetViewport, CmdSetScissor,
            CmdBindPipeline (fst (get (graphicsPipelines r) ''skysphere'')),
            CmdBindDescriptorSets (fst (get (pipelineLayouts r) ''skysphere''))
              (fst (getPtr (descriptorSets r) ''skysphere'')),
            CmdBindVertexBuffers (vertices_buf (skysphere r)),
            CmdBindIndexBuffer (indices_buf (skysphere r)),
            CmdDrawIndexed (mesh_indexCount (skysphere r)) 1 0 0 0,
            CmdBindPipeline (fst (get (graphicsPipelines r) ''scene.solid'')),
            CmdBindVertexBuffers (buffer (globalVertexBuffer (loadedScene r))),
            CmdBindIndexBuffer (buffer (globalIndexBuffer (loadedScene r)))] = Inr cmds1"
    and alpha: "deferred_draws True (pipelineLayout (loadedScene r))
           (materials (loadedScene r)) (meshes (loadedScene r))
           (cmds1 @ [CmdBindPipeline (fst (get (graphicsPipelines r) ''scene.blend''))]) = Inr cmds2"
    and ended: "call_checked ?r = Inr r4"
    and r': "r' = r4\<lparr>recorded := (recorded r4)(DeferredCmdBuffer := cmds2 @ [CmdEndRenderPass])\<rparr>"
    by (auto simp: record_deferred_commands_def and_then_Inr case_prod_beta)
  from call_checked_Inr [OF ended] have r4: "same_setup ?r r4" "recorded r4 = recorded r"
    by simp_all
  from same_setup_trans [OF same_setup_deferred_registries r4(1)] have "same_setup r r4" .
  then have kept: "same_setup r r'"
    by (simp add: r' same_setup_def)
  from deferred_draws_Inr [OF opaque] deferred_draws_Inr [OF alpha]
  have "cmds2 @ [CmdEndRenderPass] = deferred_commands r"
    by (simp add: deferred_commands_def meshes_with_alpha_def)
  with r4(2) have "recorded r' = (recorded r)(DeferredCmdBuffer := deferred_commands r)"
    by (simp add: r')
  with kept show ?thesis by simp
qed

lemma deferred_commands_cong:
  "same_setup r r' \<Longrightarrow> deferred_commands r' = deferred_commands r"
  by (simp add: same_setup_def deferred_commands_def meshes_with_alpha_def)

lemma buildDeferredCommandBuffer_Inr:
  assumes "buildDeferredCommandBuffer rebuild r = Inr r'"
  shows "recorded r' = (recorded r)(DeferredCmdBuffer := deferred_commands r)"
proof -
  from assms obtain r1 r2 r3 where
    s1: "ensure_deferred_command_buffer rebuild r = Inr r1"
    and s2: "create_deferred_semaphore r1 = Inr r2"
    and s3: "call_checked r2 = Inr r3"
    and s4: "record_deferred_commands r3 = Inr r'"
    by (auto simp: buildDeferredCommandBuffer_def and_then_Inr)
  note f1 = ensure_deferred_command_buffer_Inr [OF s1] and f2 = create_deferred_semaphore_Inr [OF s2]
    and f3 = call_checked_Inr [OF s3] and f4 = record_deferred_commands_Inr [OF s4]
  from f1 f2 f3 have before: "same_setup r r3" "recorded r3 = recorded r"
    by (auto intro: same_setup_trans)
  with f4 show ?thesis
    by (simp add: deferred_commands_cong)
qed

lemma bind_and_draw_fun:
  "bind_and_draw layout =
     (\<lambda>mesh. [CmdBindDescriptorSets layout (descriptorSet mesh),
               CmdDrawIndexed (indexCount mesh) 1 0 (indexBase mesh) 0])"
  by (rule ext) (simp add: bind_and_draw_def draw_mesh_def)

lemma filter_bind_and_draw:
  "filter is_draw (concat (map (bind_and_draw layout) ms)) = map draw_mesh ms"
  by (induction ms) (simp_all add: bind_and_draw_def draw_mesh_def)

text \<open>
  C5. After \<open>buildDeferredCommandBuffer\<close> has returned, the deferred command buffer holds
  the commands written out below: the skysphere is bound and drawn first; then, with the
  solid pipeline and the global buffers bound, every mesh of the scene whose material has
  \<open>hasAlpha\<close> false, in scene order; then, with the blend pipeline bound, every mesh whose
  material has \<open>hasAlpha\<close> true, in scene order; then the end of the render pass. Each mesh
  contributes two adjacent commands: the binding of its own descriptor set and, right after
  it, its draw. The draws of the buffer are, in this order, the skysphere, the opaque
  meshes and the alpha meshes.
\<close>

theorem deferred_pass_draw_order:
  assumes "buildDeferredCommandBuffer rebuild r = Inr r'"
  shows "recorded r' DeferredCmdBuffer =
             [CmdBeginRenderPass (offscreen_renderPass (offscreen r)) (offscreen_frameBuffer (offscreen r)),
            CmdSetViewport, CmdSetScissor,
            CmdBindPipeline (fst (get (graphicsPipelines r) ''skysphere'')),
            CmdBindDescriptorSets (fst (get (pipelineLayouts r) ''skysphere''))
              (fst (getPtr (descriptorSets r) ''skysphere'')),
            CmdBindVertexBuffers (vertices_buf (skysphere r)),
            CmdBindIndexBuffer (indices_buf (skysphere r)),
            CmdDrawIndexed (mesh_indexCount (skysphere r)) 1 0 0 0,
            CmdBindPipeline (fst (get (graphicsPipelines r) ''scene.solid'')),
            CmdBindVertexBuffers (buffer (globalVertexBuffer (loadedScene r))),
            CmdBindIndexBuffer (buffer (globalIndexBuffer (loadedScene r)))]
             @ concat (map (\<lambda>mesh. [CmdBindDescriptorSets (pipelineLayout (loadedScene r)) (descriptorSet mesh),
                                   CmdDrawIndexed (indexCount mesh) 1 0 (indexBase mesh) 0])
                 (filter (\<lambda>mesh. \<not> hasAlpha (materials (loadedScene r) ! material mesh))
                    (meshes (loadedScene r))))
             @ [CmdBindPipeline (fst (get (graphicsPipelines r) ''scene.blend''))]
             @ concat (map (\<lambda>mesh. [CmdBindDescriptorSets (pipelineLayout (loadedScene r)) (descriptorSet mesh),
                                   CmdDrawIndexed (indexCount mesh) 1 0 (indexBase mesh) 0])
                 (filter (\<lambda>mesh. hasAlpha (materials (loadedScene r) ! material mesh))
                    (meshes (loadedScene r))))
             @ [CmdEndRenderPass]
         \<and> filter is_draw (recorded r' DeferredCmdBuffer) =
             CmdDrawIndexed (mesh_indexCount (skysphere r)) 1 0 0 0
             # map (\<lambda>mesh. CmdDrawIndexed (indexCount mesh) 1 0 (indexBase mesh) 0)
                 (filter (\<lambda>mesh. \<not> hasAlpha (materials (loadedScene r) ! material mesh))
                    (meshes (loadedScene r)))
             @ map (\<lambda>mesh. CmdDrawIndexed (indexCount mesh) 1 0 (indexBase mesh) 0)
                 (filter (\<lambda>mesh. hasAlpha (materials (loadedScene r) ! material mesh))
                    (meshes (loadedScene r)))"
proof -
  from buildDeferredCommandBuffer_Inr [OF assms]
  have rec: "recorded r' DeferredCmdBuffer = deferred_commands r"
    by simp
  have whole: "deferred_commands r =
             [CmdBeginRenderPass (offscreen_renderPass (offscreen r)) (offscreen_frameBuffer (offscreen r)),
            CmdSetViewport, CmdSetScissor,
            CmdBindPipeline (fst (get (graphicsPipelines r) ''skysphere'')),
            CmdBindDescriptorSets (fst (get (pipelineLayouts r) ''skysphere''))
              (fst (getPtr (descriptorSets r) ''skysphere'')),
            CmdBindVertexBuffers (vertices_buf (skysphere r)),
            CmdBindIndexBuffer (indices_buf (skysphere r)),
            CmdDrawIndexed (mesh_indexCount (skysphere r)) 1 0 0 0,
            CmdBindPipeline (fst (get (graphicsPipelines r) ''scene.solid'')),
            CmdBindVertexBuffers (buffer (globalVertexBuffer (loadedScene r))),
            CmdBindIndexBuffer (buffer (globalIndexBuffer (loadedScene r)))]
             @ concat (map (\<lambda>mesh. [CmdBindDescriptorSets (pipelineLayout (loadedScene r)) (descriptorSet mesh),
                                   CmdDrawIndexed (indexCount mesh) 1 0 (indexBase mesh) 0])
                 (filter (\<lambda>mesh. \<not> hasAlpha (materials (loadedScene r) ! material mesh))
                    (meshes (loadedScene r))))
             @ [CmdBindPipeline (fst (get (graphicsPipelines r) ''scene.blend''))]
             @ concat (map (\<lambda>mesh. [CmdBindDescriptorSets (pipelineLayout (loadedScene r)) (descriptorSet mesh),
                                   CmdDrawIndexed (indexCount mesh) 1 0 (indexBase mesh) 0])
                 (filter (\<lambda>mesh. hasAlpha (materials (loadedScene r) ! material mesh))
                    (meshes (loadedScene r))))
             @ [CmdEndRenderPass]"
    by (simp add: deferred_commands_def meshes_with_alpha_def bind_and_draw_fun)
  have "filter is_draw (deferred_commands r) =
          CmdDrawIndexed (mesh_indexCount (skysphere r)) 1 0 0 0
          # map draw_mesh (meshes_with_alpha False (loadedScene r))
          @ map draw_mesh (meshes_with_alpha True (loadedScene r))"
    by (simp add: deferred_commands_def filter_bind_and_draw)
  then have draws: "filter is_draw (deferred_commands r) =
             CmdDrawIndexed (mesh_indexCount (skysphere r)) 1 0 0 0
             # map (\<lambda>mesh. CmdDrawIndexed (indexCount mesh) 1 0 (indexBase mesh) 0)
                 (filter (\<lambda>mesh. \<not> hasAlpha (materials (loadedScene r) ! material mesh))
                    (meshes (loadedScene r)))
             @ map (\<lambda>mesh. CmdDrawIndexed (indexCount mesh) 1 0 (indexBase mesh) 0)
                 (filter (\<lambda>mesh. hasAlpha (materials (loadedScene r) ! material mesh))
                    (meshes (loadedScene r)))"
    by (simp add: meshes_with_alpha_def draw_mesh_def)
  from whole draws show ?thesis
    unfolding rec by blast
qed

lemma example_deferred_build: "\<not> isl (buildDeferredCommandBuffer False example_renderer)"
  by code_simp

lemma example_deferred_commands:
  "deferred_commands example_renderer =
     [CmdBeginRenderPass 90 91, CmdSetViewport, CmdSetScissor,
      CmdBindPipeline 61, CmdBindDescriptorSets 51 71,
      CmdBindVertexBuffers 80, CmdBindIndexBuffer 81, CmdDrawIndexed 300 1 0 0 0,
      CmdBindPipeline 62, CmdBindVertexBuffers 32, CmdBindIndexBuffer 36,
      CmdBindDescriptorSets 40 41, CmdDrawIndexed 3 1 0 0 0,
      CmdBindDescriptorSets 40 43, CmdDrawIndexed 3 1 0 9 0,
      CmdBindPipeline 63,
      CmdBindDescriptorSets 40 42, CmdDrawIndexed 6 1 0 3 0,
      CmdEndRenderPass]"
  by code_simp

theorem deferred_pass_draw_order_witness:
  "\<exists>r'. buildDeferredCommandBuffer False example_renderer = Inr r'
     \<and> recorded r' DeferredCmdBuffer =
         [CmdBeginRenderPass 90 91, CmdSetViewport, CmdSetScissor,
          CmdBindPipeline 61, CmdBindDescriptorSets 51 71,
          CmdBindVertexBuffers 80, CmdBindIndexBuffer 81, CmdDrawIndexed 300 1 0 0 0,
          CmdBindPipeline 62, CmdBindVertexBuffers 32, CmdBindIndexBuffer 36,
          CmdBindDescriptorSets 40 41, CmdDrawIndexed 3 1 0 0 0,
          CmdBindDescriptorSets 40 43, CmdDrawIndexed 3 1 0 9 0,
          CmdBindPipeline 63,
          CmdBindDescriptorSets 40 42, CmdDrawIndexed 6 1 0 3 0,
          CmdEndRenderPass]"
proof -
  from example_deferred_build obtain r' where
    run: "buildDeferredCommandBuffer False example_renderer = Inr r'"
    by (cases "buildDeferredCommandBuffer False example_renderer") simp_all
  from deferred_pass_draw_order [OF run, THEN conjunct1]
  have "recorded r' DeferredCmdBuffer = deferred_commands example_renderer"
    by (simp add: deferred_commands_def meshes_with_alpha_def bind_and_draw_fun)
  with run show ?thesis
    by (simp add: example_deferred_commands)
qed
end
